theory Spec2Isabelle
  imports Main "HOL-Library.Word"
begin

section \<open>vold: the Disk model (model/Disk.cpp)\<close>

text \<open>
  A shallow embedding of \<^verbatim>\<open>android::vold::Disk\<close>.  The object's members are a record,
  every method takes the disk and the world around it (files, and a trace of the calls
  made to collaborators) and returns both updated.  A failed \<^verbatim>\<open>CHECK\<close>, an uncaught
  C++ exception and a null pointer handed to \<^verbatim>\<open>strcmp\<close> end the process: they are
  the \<open>Inl\<close> results.
\<close>

subsection \<open>Characters and strings of the C library\<close>

definition isspace_c :: "char \<Rightarrow> bool" where
  "isspace_c c = (c \<in> set [CHR '' '', CHR 0x09, CHR 0x0A, CHR 0x0B, CHR 0x0C, CHR 0x0D])"

definition tolower_c :: "char \<Rightarrow> char" where
  "tolower_c c =
     (case map_of (zip ''ABCDEFGHIJKLMNOPQRSTUVWXYZ'' ''abcdefghijklmnopqrstuvwxyz'') c of
        Some l \<Rightarrow> l
      | None \<Rightarrow> c)"

text \<open>\<^verbatim>\<open>std::string::c_str()\<close> read as a C string: it ends at the first NUL.\<close>

definition c_str :: "string \<Rightarrow> string" where
  "c_str s = takeWhile (\<lambda>c. c \<noteq> CHR 0x00) s"

definition digit_val :: "char \<Rightarrow> nat option" where
  "digit_val c = (let n = (of_char c :: nat) in
     if 48 \<le> n \<and> n \<le> 57 then Some (n - 48) else None)"

definition xdigit_val :: "char \<Rightarrow> nat option" where
  "xdigit_val c = (let n = (of_char c :: nat) in
     if 48 \<le> n \<and> n \<le> 57 then Some (n - 48)
     else if 97 \<le> n \<and> n \<le> 102 then Some (n - 87)
     else if 65 \<le> n \<and> n \<le> 70 then Some (n - 55)
     else None)"

text \<open>The value of a run of digits, most significant first, starting from \<open>acc\<close>.\<close>

fun digits_val :: "nat \<Rightarrow> nat \<Rightarrow> nat list \<Rightarrow> nat" where
  "digits_val base acc [] = acc"
| "digits_val base acc (v # vs) = digits_val base (acc * base + v) vs"

text \<open>The longest prefix of \<open>s\<close> made of digits (as \<open>dv\<close> reads them), and the rest.\<close>

fun span_digits :: "(char \<Rightarrow> nat option) \<Rightarrow> string \<Rightarrow> nat list \<times> string" where
  "span_digits dv [] = ([], [])"
| "span_digits dv (c # cs) =
     (case dv c of
        None \<Rightarrow> ([], c # cs)
      | Some v \<Rightarrow> (let (vs, rest) = span_digits dv cs in (v # vs, rest)))"

text \<open>
  \<^verbatim>\<open>strtoll(s, &end, base)\<close> for base 10 and 16 on a C string: white space, an optional
  sign, for base 16 an optional \<^verbatim>\<open>0x\<close> that a hex digit follows, then the longest run
  of digits.  The result is \<open>None\<close> when no digit was converted (\<^verbatim>\<open>end == s\<close>), and
  otherwise the exact value and the unread rest; the caller compares the value with the
  range of \<^verbatim>\<open>long long\<close>, where the C function sets \<^verbatim>\<open>ERANGE\<close>.
\<close>

definition strtoll :: "nat \<Rightarrow> string \<Rightarrow> (int \<times> string) option" where
  "strtoll base s =
     (let s1 = dropWhile isspace_c s;
          (neg, s2) = (case s1 of
                         c # cs \<Rightarrow> if c = CHR ''-'' then (True, cs)
                                    else if c = CHR ''+'' then (False, cs) else (False, s1)
                       | [] \<Rightarrow> (False, s1));
          s3 = (case s2 of
                  z # x # h # cs \<Rightarrow>
                    if base = 16 \<and> z = CHR ''0'' \<and> (x = CHR ''x'' \<or> x = CHR ''X'')
                       \<and> xdigit_val h \<noteq> None
                    then h # cs else s2
                | _ \<Rightarrow> s2);
          (vs, rest) = span_digits (if base = 16 then xdigit_val else digit_val) s3
      in if vs = [] then None
         else Some ((if neg then - int (digits_val base 0 vs) else int (digits_val base 0 vs)), rest))"

definition LLONG_MIN :: int where "LLONG_MIN = - (2 ^ 63)"
definition LLONG_MAX :: int where "LLONG_MAX = 2 ^ 63 - 1"
definition INT_MIN :: int where "INT_MIN = - (2 ^ 31)"
definition INT_MAX :: int where "INT_MAX = 2 ^ 31 - 1"

text \<open>
  \<^verbatim>\<open>android::base::ParseInt(s, &out, min, max)\<close>: skips white space, reads base 16
  after a leading \<^verbatim>\<open>0x\<close> and base 10 otherwise, and fails on \<^verbatim>\<open>ERANGE\<close>, on no
  digits, on trailing characters and outside \<open>[min, max]\<close>.
\<close>

definition ParseInt :: "string \<Rightarrow> int \<Rightarrow> int \<Rightarrow> int option" where
  "ParseInt str lo hi =
     (let s = dropWhile isspace_c (c_str str);
          base = (case s of
                    z # x # _ \<Rightarrow> if z = CHR ''0'' \<and> (x = CHR ''x'' \<or> x = CHR ''X'') then 16 else 10
                  | _ \<Rightarrow> (10::nat))
      in case strtoll base s of
           None \<Rightarrow> None
         | Some (result, rest) \<Rightarrow>
             if result < LLONG_MIN \<or> LLONG_MAX < result then None
             else if rest \<noteq> [] then None
             else if result < lo \<or> hi < result then None
             else Some result)"

text \<open>
  \<^verbatim>\<open>std::stoi(s)\<close>: \<^verbatim>\<open>strtol\<close> in base 10, trailing characters ignored.  It throws
  when nothing converts or the value is not an \<^verbatim>\<open>int\<close>: \<open>None\<close>.
\<close>

definition stoi :: "string \<Rightarrow> int option" where
  "stoi str =
     (case strtoll 10 (c_str str) of
        None \<Rightarrow> None
      | Some (result, rest) \<Rightarrow>
          if result < INT_MIN \<or> INT_MAX < result then None else Some result)"

text \<open>
  \<^verbatim>\<open>android::base::Split(s, delimiters)\<close>: cuts at every delimiter character and keeps
  empty pieces, so the result is never empty.
\<close>

fun Split :: "string \<Rightarrow> string \<Rightarrow> string list" where
  "Split [] delims = [[]]"
| "Split (c # cs) delims =
     (if c \<in> set delims then [] # Split cs delims
      else (case Split cs delims of
              t # ts \<Rightarrow> (c # t) # ts
            | [] \<Rightarrow> [[c]]))"

text \<open>
  The tokens that successive \<^verbatim>\<open>strtok(line, delims)\<close>, \<^verbatim>\<open>strtok(nullptr, delims)\<close>
  calls return before \<^verbatim>\<open>nullptr\<close>: the non-empty pieces of the C string.
\<close>

definition strtok_tokens :: "string \<Rightarrow> string \<Rightarrow> string list" where
  "strtok_tokens s delims = filter (\<lambda>t. t \<noteq> []) (Split (c_str s) delims)"

text \<open>
  \<^verbatim>\<open>strncasecmp(a, b, n) == 0\<close> with \<open>n\<close> the length of both arguments: it compares
  lower-cased characters and stops after a NUL.
\<close>

fun strncasecmp_eq :: "string \<Rightarrow> string \<Rightarrow> bool" where
  "strncasecmp_eq (a # as) (b # bs) =
     (if tolower_c a \<noteq> tolower_c b then False
      else if a = CHR 0x00 then True
      else strncasecmp_eq as bs)"
| "strncasecmp_eq _ _ = True"

definition EqualsIgnoreCase :: "string \<Rightarrow> string \<Rightarrow> bool" where
  "EqualsIgnoreCase lhs rhs = (length lhs = length rhs \<and> strncasecmp_eq lhs rhs)"

text \<open>\<^verbatim>\<open>android::base::Trim\<close>: drops white space at both ends.\<close>

definition Trim :: "string \<Rightarrow> string" where
  "Trim s = rev (dropWhile isspace_c (rev (dropWhile isspace_c s)))"

text \<open>\<^verbatim>\<open>sysPath.find("nvme") != npos\<close>.\<close>

fun contains :: "string \<Rightarrow> string \<Rightarrow> bool" where
  "contains [] pat = (pat = [])"
| "contains (c # cs) pat = (take (length pat) (c # cs) = pat \<or> contains cs pat)"

text \<open>Decimal output of \<^verbatim>\<open>StringPrintf\<close> (\<^verbatim>\<open>%u\<close>, and \<^verbatim>\<open>%d\<close> with its sign).\<close>

function show_nat :: "nat \<Rightarrow> string" where
  "show_nat n =
     (if n < 10 then [''0123456789'' ! n]
      else show_nat (n div 10) @ [''0123456789'' ! (n mod 10)])"
  by pat_completeness auto
termination
  by (relation "measure (\<lambda>n. n)") auto

definition show_int :: "int \<Rightarrow> string" where
  "show_int i = (if i < 0 then CHR ''-'' # show_nat (nat (- i)) else show_nat (nat i))"

subsection \<open>Constants and types of Disk.cpp\<close>

definition kSgdiskPath :: string where "kSgdiskPath = ''/system/bin/sgdisk''"
definition kSgdiskToken :: string where "kSgdiskToken = [CHR '' '', CHR 0x09, CHR 0x0A]"

definition kSysfsLoopMaxMinors :: string where
  "kSysfsLoopMaxMinors = ''/sys/module/loop/parameters/max_part''"
definition kSysfsMmcMaxMinorsDeprecated :: string where
  "kSysfsMmcMaxMinorsDeprecated = ''/sys/module/mmcblk/parameters/perdev_minors''"
definition kSysfsMmcMaxMinors :: string where
  "kSysfsMmcMaxMinors = ''/sys/module/mmc_block/parameters/mmcblk.perdev_minors''"

definition kMajorBlockLoop :: "32 word" where "kMajorBlockLoop = 7"

text \<open>\<^verbatim>\<open>kMajorBlockScsiA\<close> to \<^verbatim>\<open>kMajorBlockScsiP\<close>, the labels of one \<^verbatim>\<open>case\<close>.\<close>

definition kMajorBlockScsi :: "32 word list" where
  "kMajorBlockScsi = [8, 65, 66, 67, 68, 69, 70, 71, 128, 129, 130, 131, 132, 133, 134, 135]"

definition kMajorBlockMmc :: "32 word" where "kMajorBlockMmc = 179"
definition kMajorBlockDynamicMin :: "32 word" where "kMajorBlockDynamicMin = 234"
definition kMajorBlockDynamicMax :: "32 word" where "kMajorBlockDynamicMax = 512"

definition kGptBasicData :: string where
  "kGptBasicData = ''EBD0A0A2-B9E5-4433-87C0-68B6B72699C7''"
definition kGptLinuxFilesystem :: string where
  "kGptLinuxFilesystem = ''0FC63DAF-8483-4772-8E79-3D69D8477DE4''"
definition kGptAndroidMeta :: string where
  "kGptAndroidMeta = ''19A710A2-B3CA-11E4-B026-10604B889DCF''"
definition kGptAndroidExpand :: string where
  "kGptAndroidExpand = ''193D1EA4-B3CA-11E4-B075-10604B889DCF''"

datatype Table = kUnknown | kMbr | kGpt

text \<open>\<^verbatim>\<open>status_t\<close> is an \<^verbatim>\<open>int\<close>; the error numbers are those of Linux.\<close>

type_synonym status_t = int

definition OK :: status_t where "OK = 0"
definition EIO :: int where "EIO = 5"
definition EINVAL :: int where "EINVAL = 22"
definition ENOTSUP :: int where "ENOTSUP = 95"

text \<open>
  Modelled from the spec: \<^verbatim>\<open>dev_t\<close> with \<^verbatim>\<open>major()\<close>, \<^verbatim>\<open>minor()\<close> and
  \<^verbatim>\<open>makedev()\<close> of \<^verbatim>\<open>sys/sysmacros.h\<close>, as the major/minor pair the spec describes;
  both halves are \<^verbatim>\<open>unsigned int\<close>.
\<close>

record dev_t =
  major :: "32 word"
  minor :: "32 word"

definition makedev :: "32 word \<Rightarrow> 32 word \<Rightarrow> dev_t" where
  "makedev ma mi = \<lparr>major = ma, minor = mi\<rparr>"

text \<open>How a process ends other than by returning.\<close>

datatype abort = CheckFailed | UncaughtException | NullPointer

subsection \<open>Volumes, the world and the collaborators\<close>

text \<open>
  The volume classes are used, not implemented, by Disk.cpp: a volume is the data its
  constructor and setters are given, and each call of \<^verbatim>\<open>create()\<close>, \<^verbatim>\<open>format()\<close>
  and \<^verbatim>\<open>destroy()\<close> is recorded in the trace with the volume as it is at the call.
\<close>

datatype VolumeType = kPublic | kPrivate | kStub

record Volume =
  vType :: VolumeType
  vDevice :: dev_t
  vFsType :: string
  vMntOpts :: string
  vKeyRaw :: string
  vSilent :: bool
  vDiskId :: string
  vPartGuid :: string

definition PublicVolume :: "dev_t \<Rightarrow> string \<Rightarrow> string \<Rightarrow> Volume" where
  "PublicVolume device fstype mntopts =
     \<lparr>vType = kPublic, vDevice = device, vFsType = fstype, vMntOpts = mntopts,
      vKeyRaw = [], vSilent = False, vDiskId = [], vPartGuid = []\<rparr>"

definition PrivateVolume :: "dev_t \<Rightarrow> string \<Rightarrow> Volume" where
  "PrivateVolume device keyRaw =
     \<lparr>vType = kPrivate, vDevice = device, vFsType = [], vMntOpts = [],
      vKeyRaw = keyRaw, vSilent = False, vDiskId = [], vPartGuid = []\<rparr>"

datatype event =
    EvCreateDeviceNode string dev_t
  | EvDiskCreated string int
  | EvDiskDestroyed string
  | EvDiskMetadataChanged string "64 word" string string
  | EvDiskScanned string
  | EvForkExecvp "string list"
  | EvReadMetadataUntrusted string
  | EvVolumeCreate Volume
  | EvVolumeFormat Volume string
  | EvVolumeDestroy Volume

text \<open>
  The world: the files that \<^verbatim>\<open>ReadFileToString\<close> and \<^verbatim>\<open>WriteStringToFile\<close> see
  (sysfs parameters and the key store), and the calls made so far, oldest first.
\<close>

record world =
  files :: "string \<rightharpoonup> string"
  trace :: "event list"

text \<open>
  The collaborators whose code is not in Disk.cpp are parameters: what the listener, the
  tools, the probes, the random generators and the helpers of Utils answer.
  \<^item> \<open>getListener\<close>: whether \<^verbatim>\<open>VolumeManager::Instance()->getListener()\<close> is non-null;
  \<^item> \<open>ForkExecvp\<close>: the status and the captured output lines of a command;
  \<^item> \<open>ReadMetadataUntrusted\<close>, \<open>GetBlockDevSize\<close>: the status (and size) for a path;
  \<^item> \<open>GenerateRandomUuid\<close>: its status and the identifier; \<open>generate_volume_key\<close>:
    the key, or \<open>None\<close> for \<^verbatim>\<open>false\<close>;
  \<^item> \<open>NormalizeHex\<close>: its status and output; \<open>StrToHex\<close>, \<open>BuildKeyPath\<close>;
  \<^item> \<open>WriteStringToFile\<close>: whether writing that content to that path succeeds;
  \<^item> \<open>read_errno\<close>: \<^verbatim>\<open>errno\<close> after \<^verbatim>\<open>ReadFileToString\<close> failed on that path;
  \<^item> \<open>isStubFlags\<close>: \<^verbatim>\<open>Disk::isStub()\<close> of Disk.h, as a test of \<^verbatim>\<open>mFlags\<close>.
\<close>

record env =
  getListener :: bool
  ForkExecvp :: "string list \<Rightarrow> status_t \<times> string list"
  ReadMetadataUntrusted :: "string \<Rightarrow> status_t"
  GetBlockDevSize :: "string \<Rightarrow> status_t \<times> 64 word"
  IsVirtioBlkDevice :: "32 word \<Rightarrow> bool"
  GenerateRandomUuid :: "status_t \<times> string"
  generate_volume_key :: "string option"
  NormalizeHex :: "string \<Rightarrow> status_t \<times> string"
  StrToHex :: "string \<Rightarrow> string"
  BuildKeyPath :: "string \<Rightarrow> string"
  WriteStringToFile :: "string \<Rightarrow> string \<Rightarrow> bool"
  read_errno :: "string \<Rightarrow> int"
  isStubFlags :: "int \<Rightarrow> bool"

record Disk =
  mId :: string
  mEventPath :: string
  mSysPath :: string
  mDevPath :: string
  mDevice :: dev_t
  mSize :: "64 word"
  mLabel :: string
  mNickname :: string
  mVolumes :: "Volume list"
  mFlags :: int
  mCreated :: bool
  mJustPartitioned :: bool
  mSkipChange :: bool

definition emit :: "event list \<Rightarrow> world \<Rightarrow> world" where
  "emit evs w = w\<lparr>trace := trace w @ evs\<rparr>"

text \<open>\<^verbatim>\<open>if (listener) listener->...\<close>\<close>

definition notify :: "env \<Rightarrow> event \<Rightarrow> world \<Rightarrow> world" where
  "notify e ev w = (if getListener e then emit [ev] w else w)"

definition isStub :: "env \<Rightarrow> Disk \<Rightarrow> bool" where
  "isStub e d = isStubFlags e (mFlags d)"

definition isNvmeBlkDevice :: "32 word \<Rightarrow> string \<Rightarrow> bool" where
  "isNvmeBlkDevice majorId sysPath =
     (contains sysPath ''nvme'' \<and> majorId \<ge> kMajorBlockDynamicMin \<and> majorId \<le> kMajorBlockDynamicMax)"

subsection \<open>Construction, create and destroy of volumes\<close>

text \<open>
  The constructor.  \<^verbatim>\<open>StringPrintf\<close> with \<^verbatim>\<open>%s\<close> is given \<^verbatim>\<open>c_str()\<close>, so it
  copies up to the first NUL.
\<close>

definition Disk_new :: "string \<Rightarrow> dev_t \<Rightarrow> string \<Rightarrow> int \<Rightarrow> world \<Rightarrow> Disk \<times> world" where
  "Disk_new eventPath device nickname flags w =
     (let ident = ''disk:'' @ show_nat (unat (major device)) @ '','' @ show_nat (unat (minor device));
          devPath = ''/dev/block/vold/'' @ c_str ident
      in (\<lparr>mId = ident, mEventPath = eventPath, mSysPath = ''/sys/'' @ c_str eventPath,
           mDevPath = devPath, mDevice = device, mSize = - 1, mLabel = [],
           mNickname = nickname, mVolumes = [], mFlags = flags, mCreated = False,
           mJustPartitioned = False, mSkipChange = False\<rparr>,
          emit [EvCreateDeviceNode devPath device] w))"

definition createPublicVolume ::
  "dev_t \<Rightarrow> string \<Rightarrow> string \<Rightarrow> Disk \<times> world \<Rightarrow> Disk \<times> world" where
  "createPublicVolume device fstype mntopts dw =
     (let (d, w) = dw;
          vol = PublicVolume device fstype mntopts;
          w1 = (if mJustPartitioned d
                then (let sv = vol\<lparr>vSilent := True\<rparr>
                      in emit [EvVolumeCreate sv, EvVolumeFormat sv ''auto'', EvVolumeDestroy sv] w)
                else w);
          vol1 = vol\<lparr>vDiskId := mId d\<rparr>
      in (d\<lparr>mVolumes := mVolumes d @ [vol1]\<rparr>, emit [EvVolumeCreate vol1] w1))"

definition createPrivateVolume ::
  "env \<Rightarrow> dev_t \<Rightarrow> string \<Rightarrow> Disk \<times> world \<Rightarrow> Disk \<times> world" where
  "createPrivateVolume e device partGuid dw =
     (let (d, w) = dw;
          (st, normalizedGuid) = NormalizeHex e partGuid
      in if st \<noteq> 0 then (d, w)
         else (case files w (BuildKeyPath e normalizedGuid) of
                 None \<Rightarrow> (d, w)
               | Some keyRaw \<Rightarrow>
                   (let vol = PrivateVolume device keyRaw;
                        w1 = (if mJustPartitioned d
                              then (let sv = vol\<lparr>vSilent := True\<rparr>
                                    in emit [EvVolumeCreate sv, EvVolumeFormat sv ''auto'',
                                             EvVolumeDestroy sv] w)
                              else w);
                        vol1 = vol\<lparr>vDiskId := mId d, vPartGuid := partGuid\<rparr>
                    in (d\<lparr>mVolumes := mVolumes d @ [vol1]\<rparr>, emit [EvVolumeCreate vol1] w1))))"

definition createStubVolume :: "env \<Rightarrow> Disk \<times> world \<Rightarrow> abort + Disk \<times> world" where
  "createStubVolume e dw =
     (let (d, w) = dw
      in case mVolumes d of
           [v] \<Rightarrow>
             (let w1 = notify e (EvDiskMetadataChanged (mId d) (mSize d) (mLabel d) (mSysPath d)) w;
                  w2 = notify e (EvDiskScanned (mId d)) w1;
                  v1 = v\<lparr>vDiskId := mId d\<rparr>
              in Inr (d\<lparr>mVolumes := [v1]\<rparr>, emit [EvVolumeCreate v1] w2))
         | _ \<Rightarrow> Inl CheckFailed)"

definition destroyAllVolumes :: "Disk \<times> world \<Rightarrow> Disk \<times> world" where
  "destroyAllVolumes dw =
     (let (d, w) = dw
      in (d\<lparr>mVolumes := []\<rparr>, emit (map EvVolumeDestroy (mVolumes d)) w))"

definition initializePartition :: "env \<Rightarrow> Volume \<Rightarrow> Disk \<Rightarrow> abort + Disk" where
  "initializePartition e vol d =
     (if \<not> isStub e d then Inl CheckFailed
      else if mVolumes d \<noteq> [] then Inl CheckFailed
      else Inr (d\<lparr>mVolumes := mVolumes d @ [vol]\<rparr>))"

subsection \<open>readMetadata and getMaxMinors\<close>

definition manfid_label :: "int \<Rightarrow> string \<Rightarrow> string" where
  "manfid_label manfid label =
     (if manfid = 0x000003 then ''SanDisk''
      else if manfid = 0x00001b then ''Samsung''
      else if manfid = 0x000028 then ''Lexar''
      else if manfid = 0x000074 then ''Transcend''
      else label)"

definition readMetadata :: "env \<Rightarrow> Disk \<times> world \<Rightarrow> status_t \<times> Disk \<times> world" where
  "readMetadata e dw =
     (let (d, w) = dw
      in if mSkipChange d then (OK, d, w)
         else
           (let (st, sz) = GetBlockDevSize e (mDevPath d);
                d1 = d\<lparr>mSize := (if st \<noteq> OK then - 1 else sz), mLabel := []\<rparr>;
                majorId = major (mDevice d);
                done = (\<lambda>d2. (OK, d2,
                          notify e (EvDiskMetadataChanged (mId d2) (mSize d2) (mLabel d2) (mSysPath d2)) w))
            in if majorId = kMajorBlockLoop then done (d1\<lparr>mLabel := ''Virtual''\<rparr>)
               else if majorId \<in> set kMajorBlockScsi then
                 (let path = mSysPath d @ ''/device/vendor''
                  in case files w path of
                       None \<Rightarrow> (- read_errno e path, d1, w)
                     | Some tmp \<Rightarrow> done (d1\<lparr>mLabel := Trim tmp\<rparr>))
               else if majorId = kMajorBlockMmc then
                 (let path = mSysPath d @ ''/device/manfid''
                  in case files w path of
                       None \<Rightarrow> (- read_errno e path, d1, w)
                     | Some tmp \<Rightarrow>
                         (case ParseInt (Trim tmp) LLONG_MIN LLONG_MAX of
                            None \<Rightarrow> (- EINVAL, d1, w)
                          | Some manfid \<Rightarrow> done (d1\<lparr>mLabel := manfid_label manfid []\<rparr>)))
               else if IsVirtioBlkDevice e majorId then done (d1\<lparr>mLabel := ''Virtual''\<rparr>)
               else if isNvmeBlkDevice majorId (mSysPath d) then
                 (let path = mSysPath d @ ''/device/model''
                  in case files w path of
                       None \<Rightarrow> (- read_errno e path, d1, w)
                     | Some tmp \<Rightarrow> done (d1\<lparr>mLabel := tmp\<rparr>))
               else (- ENOTSUP, d1, w)))"

text \<open>
  \<^verbatim>\<open>getMaxMinors\<close> changes nothing.  \<^verbatim>\<open>std::stoi\<close> throws on a parameter file
  that holds no number, and nothing catches it.
\<close>

definition getMaxMinors :: "env \<Rightarrow> Disk \<times> world \<Rightarrow> abort + int" where
  "getMaxMinors e dw =
     (let (d, w) = dw;
          majorId = major (mDevice d)
      in if majorId = kMajorBlockLoop then
           (case files w kSysfsLoopMaxMinors of
              None \<Rightarrow> Inr (- read_errno e kSysfsLoopMaxMinors)
            | Some tmp \<Rightarrow> (case stoi tmp of None \<Rightarrow> Inl UncaughtException | Some n \<Rightarrow> Inr n))
         else if majorId \<in> set kMajorBlockScsi then Inr 15
         else if majorId = kMajorBlockMmc then
           (case files w kSysfsMmcMaxMinors of
              Some tmp \<Rightarrow> (case stoi tmp of None \<Rightarrow> Inl UncaughtException | Some n \<Rightarrow> Inr n)
            | None \<Rightarrow>
                (case files w kSysfsMmcMaxMinorsDeprecated of
                   Some tmp \<Rightarrow> (case stoi tmp of None \<Rightarrow> Inl UncaughtException | Some n \<Rightarrow> Inr n)
                 | None \<Rightarrow> Inr (- read_errno e kSysfsMmcMaxMinorsDeprecated)))
         else if IsVirtioBlkDevice e majorId then Inr 15
         else if isNvmeBlkDevice majorId (mSysPath d) then Inr 127
         else Inr (- ENOTSUP))"

subsection \<open>readPartitions\<close>

definition dumpCmd :: "Disk \<Rightarrow> string list" where
  "dumpCmd d = [kSgdiskPath, ''--android-dump'', mDevPath d]"

text \<open>
  The body of the loop over the output lines; the loop's variables are \<open>table\<close> and
  \<open>foundParts\<close>, and every \<^verbatim>\<open>continue\<close> returns the state as it is then.
\<close>

type_synonym scan_state = "Table \<times> bool \<times> Disk \<times> world"

definition readPartitions_line :: "env \<Rightarrow> int \<Rightarrow> string \<Rightarrow> scan_state \<Rightarrow> scan_state" where
  "readPartitions_line e maxMinors line st =
     (let (table, foundParts, d, w) = st
      in case Split line kSgdiskToken of
           [] \<Rightarrow> st
         | tok # rest \<Rightarrow>
             if tok = ''DISK'' then
               (case rest of
                  [] \<Rightarrow> st
                | kind # _ \<Rightarrow>
                    if kind = ''mbr'' then (kMbr, foundParts, d, w)
                    else if kind = ''gpt'' then (kGpt, foundParts, d, w)
                    else st)
             else if tok = ''PART'' then
               (case rest of
                  [] \<Rightarrow> (table, True, d, w)
                | num # rest2 \<Rightarrow>
                    (case ParseInt num 1 maxMinors of
                       None \<Rightarrow> (table, True, d, w)
                     | Some i \<Rightarrow>
                         (let partDevice = makedev (major (mDevice d))
                                                   (minor (mDevice d) + word_of_int i)
                          in if table = kMbr then
                               (case rest2 of
                                  [] \<Rightarrow> (table, True, d, w)
                                | ty # _ \<Rightarrow>
                                    (case ParseInt (''0x'' @ ty) INT_MIN INT_MAX of
                                       None \<Rightarrow> (table, True, d, w)
                                     | Some type \<Rightarrow>
                                         if type \<in> set [0x06, 0x07, 0x0b, 0x0c, 0x0e, 0x83]
                                         then (table, True, createPublicVolume partDevice [] [] (d, w))
                                         else (table, True, d, w)))
                             else if table = kGpt then
                               (case rest2 of
                                  typeGuid # partGuid # _ \<Rightarrow>
                                    if EqualsIgnoreCase typeGuid kGptBasicData
                                       \<or> EqualsIgnoreCase typeGuid kGptLinuxFilesystem
                                    then (table, True, createPublicVolume partDevice [] [] (d, w))
                                    else if EqualsIgnoreCase typeGuid kGptAndroidExpand
                                    then (table, True, createPrivateVolume e partDevice partGuid (d, w))
                                    else (table, True, d, w)
                                | _ \<Rightarrow> (table, True, d, w))
                             else (table, True, d, w))))
             else st)"

fun readPartitions_loop :: "env \<Rightarrow> int \<Rightarrow> string list \<Rightarrow> scan_state \<Rightarrow> scan_state" where
  "readPartitions_loop e maxMinors [] st = st"
| "readPartitions_loop e maxMinors (line # output) st =
     readPartitions_loop e maxMinors output (readPartitions_line e maxMinors line st)"

definition readPartitions :: "env \<Rightarrow> Disk \<times> world \<Rightarrow> abort + status_t \<times> Disk \<times> world" where
  "readPartitions e dw =
     (case getMaxMinors e dw of
        Inl a \<Rightarrow> Inl a
      | Inr maxMinors \<Rightarrow>
          if maxMinors < 0 then Inr (- ENOTSUP, dw)
          else if mSkipChange (fst dw) then Inr (OK, (fst dw)\<lparr>mSkipChange := False\<rparr>, snd dw)
          else
            (let (d, w) = destroyAllVolumes dw;
                 (res, output) = ForkExecvp e (dumpCmd d);
                 w1 = emit [EvForkExecvp (dumpCmd d)] w
             in if res \<noteq> OK
                then Inr (res, d\<lparr>mJustPartitioned := False\<rparr>, notify e (EvDiskScanned (mId d)) w1)
                else
                  (let (table, foundParts, d2, w2) =
                         readPartitions_loop e maxMinors output (kUnknown, False, d, w1);
                       (d3, w3) =
                         (if table = kUnknown \<or> \<not> foundParts then
                            (let w2' = emit [EvReadMetadataUntrusted (mDevPath d2)] w2
                             in if ReadMetadataUntrusted e (mDevPath d2) = OK
                                then createPublicVolume (mDevice d2) [] [] (d2, w2')
                                else (d2, w2'))
                          else (d2, w2))
                   in Inr (OK, d3\<lparr>mJustPartitioned := False\<rparr>,
                           notify e (EvDiskScanned (mId d3)) w3))))"

subsection \<open>partitionPublic, partitionPrivate and partitionMixed\<close>

text \<open>
  The loop of \<^verbatim>\<open>partitionPublic\<close> that looks for the table kind with \<^verbatim>\<open>strtok\<close>.
  After a \<^verbatim>\<open>DISK\<close> token the second \<^verbatim>\<open>strtok\<close> result goes to \<^verbatim>\<open>strcmp\<close>
  unchecked, also when it is \<^verbatim>\<open>nullptr\<close>.
\<close>

fun partitionPublic_table :: "string list \<Rightarrow> abort + Table" where
  "partitionPublic_table [] = Inr kUnknown"
| "partitionPublic_table (line # output) =
     (case strtok_tokens line kSgdiskToken of
        [] \<Rightarrow> partitionPublic_table output
      | token # toks \<Rightarrow>
          if token = ''DISK'' then
            (case toks of
               [] \<Rightarrow> Inl NullPointer
             | type # _ \<Rightarrow>
                 if type = ''mbr'' then Inr kMbr
                 else if type = ''gpt'' then Inr kGpt
                 else partitionPublic_table output)
          else partitionPublic_table output)"

definition zapCmd :: "Disk \<Rightarrow> string list" where
  "zapCmd d = [kSgdiskPath, ''--zap-all'', mDevPath d]"

definition publicCmd :: "Disk \<Rightarrow> string list" where
  "publicCmd d = [kSgdiskPath, ''--new=0:0:-0'', ''--typecode=0:0c00'', ''--gpttombr=1'', mDevPath d]"

definition partitionPublic :: "env \<Rightarrow> Disk \<times> world \<Rightarrow> abort + status_t \<times> Disk \<times> world" where
  "partitionPublic e dw =
     (let (d0, w0) = destroyAllVolumes dw;
          d = d0\<lparr>mJustPartitioned := True\<rparr>;
          (res, output) = ForkExecvp e (dumpCmd d);
          w1 = emit [EvForkExecvp (dumpCmd d)] w0
      in case (if res = OK then partitionPublic_table output else Inr kUnknown) of
           Inl a \<Rightarrow> Inl a
         | Inr table \<Rightarrow>
             (let d1 = (if table = kMbr then d\<lparr>mSkipChange := True\<rparr> else d);
                  w2 = emit [EvForkExecvp (zapCmd d1)] w1;
                  w3 = emit [EvForkExecvp (publicCmd d1)] w2;
                  res3 = fst (ForkExecvp e (publicCmd d1))
              in if res3 \<noteq> 0 then Inr (res3, d1, w3) else Inr (OK, d1, w3)))"

text \<open>
  The arguments of the table construction; \<open>partGuid\<close> is the hex form, printed
  with \<^verbatim>\<open>%s\<close> from its \<^verbatim>\<open>c_str()\<close>.
\<close>

definition mixedCmd :: "Disk \<Rightarrow> 8 word \<Rightarrow> string \<Rightarrow> string list" where
  "mixedCmd d ratio partGuid =
     [kSgdiskPath]
     @ (if 0 <s ratio then
          (let splitMb = (((mSize d div 100) * scast ratio) div 1024) div 1024
           in [''--new=0:0:+'' @ show_int (sint splitMb) @ ''M'',
               ''--typecode=0:'' @ kGptBasicData,
               ''--change-name=0:shared''])
        else [])
     @ [''--new=0:0:+16M'', ''--typecode=0:'' @ kGptAndroidMeta, ''--change-name=0:android_meta'',
        ''--new=0:0:-0'', ''--typecode=0:'' @ kGptAndroidExpand,
        ''--partition-guid=0:'' @ c_str partGuid, ''--change-name=0:android_expand'',
        mDevPath d]"

definition partitionMixed :: "env \<Rightarrow> 8 word \<Rightarrow> Disk \<times> world \<Rightarrow> status_t \<times> Disk \<times> world" where
  "partitionMixed e ratio dw =
     (let (d0, w0) = destroyAllVolumes dw;
          d = d0\<lparr>mJustPartitioned := True\<rparr>;
          w1 = emit [EvForkExecvp (zapCmd d)] w0;
          (st, partGuidRaw) = GenerateRandomUuid e
      in if st \<noteq> OK then (- EIO, d, w1)
         else (case generate_volume_key e of
                 None \<Rightarrow> (- EIO, d, w1)
               | Some keyRaw \<Rightarrow>
                   (let partGuid = StrToHex e partGuidRaw
                    in if \<not> WriteStringToFile e keyRaw (BuildKeyPath e partGuid)
                       then (- EIO, d, w1)
                       else
                         (let w2 = w1\<lparr>files := (files w1)(BuildKeyPath e partGuid \<mapsto> keyRaw)\<rparr>
                          in if 0 <s ratio \<and> (ratio <s 10 \<or> 90 <s ratio)
                             then (- EINVAL, d, w2)
                             else
                               (let cmd = mixedCmd d ratio partGuid;
                                    w3 = emit [EvForkExecvp cmd] w2;
                                    res = fst (ForkExecvp e cmd)
                                in if res \<noteq> 0 then (res, d, w3) else (OK, d, w3))))))"

definition partitionPrivate :: "env \<Rightarrow> Disk \<times> world \<Rightarrow> status_t \<times> Disk \<times> world" where
  "partitionPrivate e dw = partitionMixed e 0 dw"

subsection \<open>create and destroy\<close>

definition create :: "env \<Rightarrow> Disk \<times> world \<Rightarrow> abort + status_t \<times> Disk \<times> world" where
  "create e dw =
     (let (d0, w0) = dw
      in if mCreated d0 then Inl CheckFailed
         else
           (let d = d0\<lparr>mCreated := True\<rparr>;
                w = notify e (EvDiskCreated (mId d) (mFlags d)) w0
            in if isStub e d then
                 (case createStubVolume e (d, w) of
                    Inl a \<Rightarrow> Inl a
                  | Inr dw1 \<Rightarrow> Inr (OK, dw1))
               else
                 (let (st, dw1) = readMetadata e (d, w)
                  in case readPartitions e dw1 of
                       Inl a \<Rightarrow> Inl a
                     | Inr (st2, dw2) \<Rightarrow> Inr (OK, dw2))))"

definition destroy :: "env \<Rightarrow> Disk \<times> world \<Rightarrow> abort + status_t \<times> Disk \<times> world" where
  "destroy e dw =
     (if \<not> mCreated (fst dw) then Inl CheckFailed
      else
        (let (d, w) = destroyAllVolumes dw;
             d1 = d\<lparr>mCreated := False\<rparr>
         in Inr (OK, d1, notify e (EvDiskDestroyed (mId d1)) w)))"

text \<open>A caller making one call after another: the next call sees what the last one left.\<close>

definition andThen ::
  "abort + status_t \<times> Disk \<times> world \<Rightarrow> (Disk \<times> world \<Rightarrow> abort + status_t \<times> Disk \<times> world)
   \<Rightarrow> abort + status_t \<times> Disk \<times> world" where
  "andThen r f = (case r of Inl a \<Rightarrow> Inl a | Inr (st, dw) \<Rightarrow> f dw)"

subsection \<open>Notions of the specification\<close>

text \<open>The members of a disk that no method assigns after construction.\<close>

definition identity :: "Disk \<Rightarrow> string \<times> string \<times> string \<times> string \<times> dev_t \<times> string \<times> int" where
  "identity d = (mId d, mEventPath d, mSysPath d, mDevPath d, mDevice d, mNickname d, mFlags d)"

text \<open>Equal up to the case of letters.\<close>

definition same_ignoring_case :: "string \<Rightarrow> string \<Rightarrow> bool" where
  "same_ignoring_case a b = (map tolower_c a = map tolower_c b)"

text \<open>The child device of partition \<open>i\<close>: the parent's major, the parent's minor plus \<open>i\<close>.\<close>

definition childDevice :: "Disk \<Rightarrow> int \<Rightarrow> dev_t" where
  "childDevice d i = makedev (major (mDevice d)) (minor (mDevice d) + word_of_int i)"

text \<open>The MBR types that give a public volume.\<close>

definition mbr_public_types :: "nat list" where
  "mbr_public_types = [0x06, 0x07, 0x0B, 0x0C, 0x0E, 0x83]"

text \<open>
  A line of the tool's output records a table kind when its first token is \<^verbatim>\<open>DISK\<close>
  and its second one \<^verbatim>\<open>mbr\<close> or \<^verbatim>\<open>gpt\<close>; it is a partition line when its first
  token is \<^verbatim>\<open>PART\<close>.  Tokens are those of \<^verbatim>\<open>Split\<close>.
\<close>

definition table_of_line :: "string \<Rightarrow> Table option" where
  "table_of_line line =
     (case Split line kSgdiskToken of
        tok # kind # _ \<Rightarrow>
          if tok = ''DISK'' \<and> kind = ''mbr'' then Some kMbr
          else if tok = ''DISK'' \<and> kind = ''gpt'' then Some kGpt
          else None
      | _ \<Rightarrow> None)"

definition is_part_line :: "string \<Rightarrow> bool" where
  "is_part_line line = (case Split line kSgdiskToken of tok # _ \<Rightarrow> tok = ''PART'' | [] \<Rightarrow> False)"

text \<open>The table kind in force after some lines: the last one recorded.\<close>

fun table_after :: "string list \<Rightarrow> Table \<Rightarrow> Table" where
  "table_after [] t = t"
| "table_after (line # output) t =
     table_after output (case table_of_line line of Some t' \<Rightarrow> t' | None \<Rightarrow> t)"

text \<open>
  What the look at the current table in \<^verbatim>\<open>partitionPublic\<close> reports: the kind on
  the first line that names one, with the tokens of \<^verbatim>\<open>strtok\<close>.
\<close>

definition prescan_kind :: "string \<Rightarrow> Table option" where
  "prescan_kind line =
     (case strtok_tokens line kSgdiskToken of
        tok # kind # _ \<Rightarrow>
          if tok = ''DISK'' \<and> kind = ''mbr'' then Some kMbr
          else if tok = ''DISK'' \<and> kind = ''gpt'' then Some kGpt
          else None
      | _ \<Rightarrow> None)"

definition prescan_reports :: "string list \<Rightarrow> Table" where
  "prescan_reports output =
     (case List.map_filter prescan_kind output of [] \<Rightarrow> kUnknown | t # _ \<Rightarrow> t)"

text \<open>A \<^verbatim>\<open>DISK\<close> line that names nothing.\<close>

definition bare_disk_line :: "string \<Rightarrow> bool" where
  "bare_disk_line line = (strtok_tokens line kSgdiskToken = [''DISK''])"

text \<open>
  The scanner as the specification describes it: every partition record gets a decision,
  and a factory turns a decision into at most one volume.
\<close>

datatype decision = DecNone | DecPublic | DecPrivate string

text \<open>The number a token of hex digits denotes, if it is one.\<close>

definition hex_value :: "string \<Rightarrow> nat option" where
  "hex_value s =
     (if s \<noteq> [] \<and> list_all (\<lambda>c. xdigit_val c \<noteq> None) s
      then Some (digits_val 16 0 (map (\<lambda>c. the (xdigit_val c)) s)) else None)"

text \<open>
  An MBR record's decision reads its type token as a hex number (up to a NUL, as the C
  string does); a GPT record's decision compares the type GUID, letters of either case.
\<close>

definition mbr_decision :: "string \<Rightarrow> decision" where
  "mbr_decision ty =
     (case hex_value (c_str ty) of
        Some v \<Rightarrow> if v \<in> set mbr_public_types then DecPublic else DecNone
      | None \<Rightarrow> DecNone)"

definition gpt_decision :: "string \<Rightarrow> string \<Rightarrow> decision" where
  "gpt_decision typeGuid partGuid =
     (if same_ignoring_case typeGuid kGptBasicData \<or> same_ignoring_case typeGuid kGptLinuxFilesystem
      then DecPublic
      else if same_ignoring_case typeGuid kGptAndroidExpand then DecPrivate partGuid
      else DecNone)"

text \<open>
  The index and the decision of a line under a table kind, for a \<^verbatim>\<open>PART\<close> line with an
  index within 1..maxMinors and the tokens its table kind needs; no record otherwise.
\<close>

definition record_decision :: "int \<Rightarrow> Table \<Rightarrow> string \<Rightarrow> (int \<times> decision) option" where
  "record_decision maxMinors table line =
     (case Split line kSgdiskToken of
        tok # num # rest \<Rightarrow>
          if tok = ''PART'' then
            (case ParseInt num 1 maxMinors of
               None \<Rightarrow> None
             | Some i \<Rightarrow>
                 (case table of
                    kMbr \<Rightarrow> (case rest of ty # _ \<Rightarrow> Some (i, mbr_decision ty) | [] \<Rightarrow> None)
                  | kGpt \<Rightarrow> (case rest of
                               typeGuid # partGuid # _ \<Rightarrow> Some (i, gpt_decision typeGuid partGuid)
                             | _ \<Rightarrow> None)
                  | kUnknown \<Rightarrow> None))
          else None
      | _ \<Rightarrow> None)"

text \<open>The decisions of a whole output, in the order of its lines.\<close>

fun scan_decisions :: "int \<Rightarrow> Table \<Rightarrow> string list \<Rightarrow> (int \<times> decision) list" where
  "scan_decisions maxMinors table [] = []"
| "scan_decisions maxMinors table (line # out) =
     (case record_decision maxMinors table line of Some x \<Rightarrow> [x] | None \<Rightarrow> [])
     @ scan_decisions maxMinors (case table_of_line line of Some t \<Rightarrow> t | None \<Rightarrow> table) out"

text \<open>
  The factory: a public volume on the child device; a private one when the partition
  GUID normalises and the store holds a key under its path.
\<close>

definition makePublic :: "Disk \<Rightarrow> int \<Rightarrow> Volume" where
  "makePublic d i = (PublicVolume (childDevice d i) [] [])\<lparr>vDiskId := mId d\<rparr>"

definition makePrivate :: "env \<Rightarrow> (string \<rightharpoonup> string) \<Rightarrow> Disk \<Rightarrow> int \<Rightarrow> string \<Rightarrow> Volume option" where
  "makePrivate e store d i partGuid =
     (case NormalizeHex e partGuid of
        (st, normalizedGuid) \<Rightarrow>
          if st \<noteq> 0 then None
          else (case store (BuildKeyPath e normalizedGuid) of
                  None \<Rightarrow> None
                | Some keyRaw \<Rightarrow>
                    Some ((PrivateVolume (childDevice d i) keyRaw)
                            \<lparr>vDiskId := mId d, vPartGuid := partGuid\<rparr>)))"

fun decision_volumes :: "env \<Rightarrow> (string \<rightharpoonup> string) \<Rightarrow> Disk \<Rightarrow> int \<times> decision \<Rightarrow> Volume list" where
  "decision_volumes e store d (i, DecNone) = []"
| "decision_volumes e store d (i, DecPublic) = [makePublic d i]"
| "decision_volumes e store d (i, DecPrivate partGuid) =
     (case makePrivate e store d i partGuid of Some v \<Rightarrow> [v] | None \<Rightarrow> [])"

text \<open>The volumes that the decisions of an output give, in order.\<close>

definition scan_volumes ::
  "env \<Rightarrow> (string \<rightharpoonup> string) \<Rightarrow> Disk \<Rightarrow> int \<Rightarrow> Table \<Rightarrow> string list \<Rightarrow> Volume list" where
  "scan_volumes e store d maxMinors table out =
     concat (map (decision_volumes e store d) (scan_decisions maxMinors table out))"

subsection \<open>A sample environment\<close>

text \<open>
  Modelled from the spec: \<^verbatim>\<open>StrToHex\<close>, \<^verbatim>\<open>NormalizeHex\<close> and \<^verbatim>\<open>BuildKeyPath\<close> of
  Utils, which Disk.cpp calls and does not define.  The identifier is normalised to
  lower-case hex, separators dropped, and the key is stored under a path made from it.
  They serve the concrete runs below; the theorems hold for any such helpers.
\<close>

definition hex_lower :: "nat \<Rightarrow> char" where
  "hex_lower n = ''0123456789abcdef'' ! (n mod 16)"

definition StrToHex_model :: "string \<Rightarrow> string" where
  "StrToHex_model s = concat (map (\<lambda>c. [hex_lower (of_char c div 16), hex_lower (of_char c)]) s)"

definition NormalizeHex_model :: "string \<Rightarrow> status_t \<times> string" where
  "NormalizeHex_model g =
     (let s = filter (\<lambda>c. c \<notin> set [CHR '' '', CHR ''-'', CHR '':'']) g
      in if list_all (\<lambda>c. xdigit_val c \<noteq> None) s \<and> even (length s)
         then (OK, map tolower_c s) else (- EINVAL, []))"

definition BuildKeyPath_model :: "string \<Rightarrow> string" where
  "BuildKeyPath_model partGuid = ''/data/misc/vold/expand_'' @ partGuid @ ''.key''"

text \<open>
  An environment with a listener, tools that answer \<open>tool\<close>, a probe that recognises
  a filesystem exactly when \<open>probe\<close>, and generators that succeed.  Flag bit 6 marks a
  stub disk.
\<close>

definition sample_env :: "(string list \<Rightarrow> status_t \<times> string list) \<Rightarrow> bool \<Rightarrow> env" where
  "sample_env tool probe =
     \<lparr>getListener = True, ForkExecvp = tool,
      ReadMetadataUntrusted = (\<lambda>p. if probe then OK else - EIO),
      GetBlockDevSize = (\<lambda>p. (OK, 0x780000000)), IsVirtioBlkDevice = (\<lambda>m. False),
      GenerateRandomUuid = (OK, ''vold-disk-uuid-1''),
      generate_volume_key = Some ''0123456789abcdef'',
      NormalizeHex = NormalizeHex_model, StrToHex = StrToHex_model,
      BuildKeyPath = BuildKeyPath_model, WriteStringToFile = (\<lambda>content path. True),
      read_errno = (\<lambda>p. 2), isStubFlags = (\<lambda>flags. flags div 64 mod 2 = 1)\<rparr>"

text \<open>A tool that succeeds and prints \<open>lines\<close> for the dump, and nothing otherwise.\<close>

definition sample_tool :: "string list \<Rightarrow> string list \<Rightarrow> status_t \<times> string list" where
  "sample_tool lines cmd = (if cmd = [kSgdiskPath, ''--android-dump'', ''/dev/block/vold/disk:8,0'']
                            then (OK, lines) else (OK, []))"

definition failing_tool :: "string list \<Rightarrow> status_t \<times> string list" where
  "failing_tool cmd = (- EIO, [])"

definition sample_world :: world where
  "sample_world = \<lparr>files = Map.empty, trace = []\<rparr>"

text \<open>A SCSI disk (8,0) as its constructor leaves it, and a disk with one public volume.\<close>

definition sample_disk :: Disk where
  "sample_disk = fst (Disk_new ''devices/usb/block/sda'' (makedev 8 0) ''usb'' 0 sample_world)"

definition sample_disk_vol :: Disk where
  "sample_disk_vol = sample_disk\<lparr>mVolumes := [PublicVolume (makedev 8 1) [] []]\<rparr>"

text \<open>A stub disk after \<^verbatim>\<open>initializePartition\<close> gave it its volume.\<close>

definition sample_stub_volume :: Volume where
  "sample_stub_volume =
     \<lparr>vType = kStub, vDevice = makedev 8 16, vFsType = [], vMntOpts = [],
      vKeyRaw = [], vSilent = False, vDiskId = [], vPartGuid = []\<rparr>"

definition sample_stub_disk :: Disk where
  "sample_stub_disk =
     (fst (Disk_new ''devices/virtual/block/stub'' (makedev 8 16) ''stub'' 64 sample_world))
       \<lparr>mVolumes := [sample_stub_volume]\<rparr>"

subsection \<open>Auxiliary notions for the scan\<close>

text \<open>The calls a scan makes between the dump and the notification: volume calls and the probe.\<close>

fun scan_event :: "event \<Rightarrow> bool" where
  "scan_event (EvVolumeCreate v) = True"
| "scan_event (EvVolumeFormat v f) = True"
| "scan_event (EvVolumeDestroy v) = True"
| "scan_event (EvReadMetadataUntrusted p) = True"
| "scan_event _ = False"

text \<open>
  \<open>extends dw dw'\<close>: the later state has the same disk but for volumes appended, the
  same files, and a trace grown by scan events only.
\<close>

definition extends :: "Disk \<times> world \<Rightarrow> Disk \<times> world \<Rightarrow> bool" where
  "extends dw dw' =
     (fst dw' = (fst dw)\<lparr>mVolumes := mVolumes (fst dw')\<rparr>
      \<and> take (length (mVolumes (fst dw))) (mVolumes (fst dw')) = mVolumes (fst dw)
      \<and> files (snd dw') = files (snd dw)
      \<and> take (length (trace (snd dw))) (trace (snd dw')) = trace (snd dw)
      \<and> list_all scan_event (drop (length (trace (snd dw))) (trace (snd dw'))))"

text \<open>
  The two ends of \<^verbatim>\<open>readPartitions\<close> around its loop, once past the checks and with
  a tool that succeeded: the state the loop starts from, and what follows the loop.
\<close>

definition scan_start :: "Disk \<times> world \<Rightarrow> scan_state" where
  "scan_start dw =
     (kUnknown, False, (fst dw)\<lparr>mVolumes := []\<rparr>,
      emit (map EvVolumeDestroy (mVolumes (fst dw)) @ [EvForkExecvp (dumpCmd (fst dw))]) (snd dw))"

definition scan_finish :: "env \<Rightarrow> scan_state \<Rightarrow> abort + status_t \<times> Disk \<times> world" where
  "scan_finish e st =
     (let (table, foundParts, d2, w2) = st;
          (d3, w3) =
            (if table = kUnknown \<or> \<not> foundParts then
               (let w2' = emit [EvReadMetadataUntrusted (mDevPath d2)] w2
                in if ReadMetadataUntrusted e (mDevPath d2) = OK
                   then createPublicVolume (mDevice d2) [] [] (d2, w2')
                   else (d2, w2'))
             else (d2, w2))
      in Inr (OK, d3\<lparr>mJustPartitioned := False\<rparr>, notify e (EvDiskScanned (mId d3)) w3))"

section \<open>Properties\<close>

subsection \<open>The sample environment, evaluated\<close>

lemma sample_disk_eq:
  "sample_disk = \<lparr>mId = ''disk:8,0'', mEventPath = ''devices/usb/block/sda'',
      mSysPath = ''/sys/devices/usb/block/sda'', mDevPath = ''/dev/block/vold/disk:8,0'',
      mDevice = \<lparr>major = 8, minor = 0\<rparr>, mSize = - 1, mLabel = [], mNickname = ''usb'',
      mVolumes = [], mFlags = 0, mCreated = False, mJustPartitioned = False, mSkipChange = False\<rparr>"
  by (simp add: sample_disk_def Disk_new_def makedev_def Let_def c_str_def)

lemma StrToHex_sample: "StrToHex_model ''vold-disk-uuid-1'' = ''766f6c642d6469736b2d757569642d31''"
  by (simp add: StrToHex_model_def hex_lower_def)

lemma sample_env_simps:
  "GenerateRandomUuid (sample_env tool probe) = (OK, ''vold-disk-uuid-1'')"
  "generate_volume_key (sample_env tool probe) = Some ''0123456789abcdef''"
  "WriteStringToFile (sample_env tool probe) k p"
  "StrToHex (sample_env tool probe) = StrToHex_model"
  "BuildKeyPath (sample_env tool probe) = BuildKeyPath_model"
  "NormalizeHex (sample_env tool probe) = NormalizeHex_model"
  "ForkExecvp (sample_env tool probe) = tool"
  "getListener (sample_env tool probe)"
  "ReadMetadataUntrusted (sample_env tool probe) p = (if probe then OK else - EIO)"
  "IsVirtioBlkDevice (sample_env tool probe) m = False"
  "isStubFlags (sample_env tool probe) f = (f div 64 mod 2 = 1)"
  by (simp_all add: sample_env_def)

subsection \<open>partitionMixed: the ratio check\<close>

text \<open>
  Claim C9, as the code has it.  Once the identifier and the key are generated and the key
  is written, \<^verbatim>\<open>partitionMixed(ratio)\<close> returns \<^verbatim>\<open>-EINVAL\<close> without running the
  table construction exactly when the ratio is positive and outside 10..90; for every
  other ratio, zero and the negative ones included (the parameter is an \<^verbatim>\<open>int8_t\<close>
  and the check is under \<^verbatim>\<open>ratio > 0\<close>), it runs the table construction and returns
  the tool's status.  In both cases the volumes are gone, \<^verbatim>\<open>mJustPartitioned\<close> is set,
  the erase tool has run and the key is in the store.
\<close>

theorem partitionMixed_ratio:
  assumes "GenerateRandomUuid e = (OK, raw)"
    and "generate_volume_key e = Some key"
    and "WriteStringToFile e key (BuildKeyPath e (StrToHex e raw))"
  shows "partitionMixed e ratio (d, w) =
     (let d1 = d\<lparr>mVolumes := [], mJustPartitioned := True\<rparr>;
          w1 = \<lparr>files = (files w)(BuildKeyPath e (StrToHex e raw) \<mapsto> key),
                trace = trace w @ map EvVolumeDestroy (mVolumes d) @ [EvForkExecvp (zapCmd d)]\<rparr>
      in if 0 < sint ratio \<and> (sint ratio < 10 \<or> 90 < sint ratio)
         then (- EINVAL, d1, w1)
         else (fst (ForkExecvp e (mixedCmd d1 ratio (StrToHex e raw))), d1,
               emit [EvForkExecvp (mixedCmd d1 ratio (StrToHex e raw))] w1))"
  using assms
  by (simp add: partitionMixed_def destroyAllVolumes_def Let_def emit_def zapCmd_def OK_def
      word_sless_alt mixedCmd_def)

text \<open>Ratios 5 and 95 are rejected, 50 and 0 go through, on the sample disk.\<close>

theorem partitionMixed_ratio_witness:
  "fst (partitionMixed (sample_env (sample_tool []) True) 5 (sample_disk, sample_world)) = - EINVAL
   \<and> fst (partitionMixed (sample_env (sample_tool []) True) 95 (sample_disk, sample_world)) = - EINVAL
   \<and> fst (partitionMixed (sample_env (sample_tool []) True) 50 (sample_disk, sample_world)) = OK
   \<and> fst (partitionMixed (sample_env (sample_tool []) True) 0 (sample_disk, sample_world)) = OK"
  using partitionMixed_ratio [of "sample_env (sample_tool []) True" "''vold-disk-uuid-1''"
      "''0123456789abcdef''" 5 sample_disk sample_world]
    partitionMixed_ratio [of "sample_env (sample_tool []) True" "''vold-disk-uuid-1''"
      "''0123456789abcdef''" 95 sample_disk sample_world]
    partitionMixed_ratio [of "sample_env (sample_tool []) True" "''vold-disk-uuid-1''"
      "''0123456789abcdef''" 50 sample_disk sample_world]
    partitionMixed_ratio [of "sample_env (sample_tool []) True" "''vold-disk-uuid-1''"
      "''0123456789abcdef''" 0 sample_disk sample_world]
  by (simp add: sample_env_simps Let_def sample_tool_def OK_def)

text \<open>
  The ratio \<open>-1\<close> is not zero and lies outside 10..90, and it is not rejected: the
  private-only table is built.
\<close>

theorem partitionMixed_negative_ratio_counterexample:
  "sint (- 1 :: 8 word) \<noteq> 0 \<and> \<not> (10 \<le> sint (- 1 :: 8 word) \<and> sint (- 1 :: 8 word) \<le> 90)
   \<and> fst (partitionMixed (sample_env (sample_tool []) True) (- 1) (sample_disk, sample_world)) = OK
   \<and> last (trace (snd (snd (partitionMixed (sample_env (sample_tool []) True) (- 1)
                                (sample_disk, sample_world)))))
       = EvForkExecvp [''/system/bin/sgdisk'', ''--new=0:0:+16M'',
           ''--typecode=0:19A710A2-B3CA-11E4-B026-10604B889DCF'', ''--change-name=0:android_meta'',
           ''--new=0:0:-0'', ''--typecode=0:193D1EA4-B3CA-11E4-B075-10604B889DCF'',
           ''--partition-guid=0:766f6c642d6469736b2d757569642d31'',
           ''--change-name=0:android_expand'', ''/dev/block/vold/disk:8,0'']"
  by (simp add: partitionMixed_def destroyAllVolumes_def Let_def emit_def zapCmd_def OK_def
      word_sless_alt mixedCmd_def sample_env_simps sample_tool_def sample_disk_eq sample_world_def
      StrToHex_sample kSgdiskPath_def kGptAndroidMeta_def kGptAndroidExpand_def EIO_def EINVAL_def
      c_str_def)

text \<open>
  Claim C10.  When \<^verbatim>\<open>partitionMixed\<close> rejects a positive ratio outside 10..90, the
  disk's volumes have been destroyed, \<^verbatim>\<open>mJustPartitioned\<close> is set, the erase tool has
  run, and the generated key is stored under the path of the generated identifier: the
  state after the rejection differs from the state before.
\<close>

theorem partitionMixed_reject_not_atomic:
  assumes "0 < sint ratio" and "sint ratio < 10 \<or> 90 < sint ratio"
    and "partitionMixed e ratio (d, w) = (- EINVAL, d', w')"
  shows "mVolumes d' = [] \<and> mJustPartitioned d'
     \<and> trace w' = trace w @ map EvVolumeDestroy (mVolumes d) @ [EvForkExecvp (zapCmd d)]
     \<and> (\<exists>raw key. GenerateRandomUuid e = (OK, raw) \<and> generate_volume_key e = Some key
           \<and> files w' (BuildKeyPath e (StrToHex e raw)) = Some key)
     \<and> (d', w') \<noteq> (d, w)"
proof -
  obtain st raw where g: "GenerateRandomUuid e = (st, raw)" by (cases "GenerateRandomUuid e")
  from assms(3) g have st: "st = OK"
    by (auto simp: partitionMixed_def destroyAllVolumes_def Let_def EIO_def EINVAL_def
        split: if_splits)
  from assms(3) g st obtain key where k: "generate_volume_key e = Some key"
    by (cases "generate_volume_key e")
      (auto simp: partitionMixed_def destroyAllVolumes_def Let_def EIO_def EINVAL_def)
  from assms(3) g st k have wr: "WriteStringToFile e key (BuildKeyPath e (StrToHex e raw))"
    by (auto simp: partitionMixed_def destroyAllVolumes_def Let_def EIO_def EINVAL_def
        split: if_splits)
  from assms g st k wr have d': "d' = d\<lparr>mVolumes := [], mJustPartitioned := True\<rparr>"
    and w': "w' = \<lparr>files = (files w)(BuildKeyPath e (StrToHex e raw) \<mapsto> key),
                trace = trace w @ map EvVolumeDestroy (mVolumes d) @ [EvForkExecvp (zapCmd d)]\<rparr>"
    by (auto simp: partitionMixed_def destroyAllVolumes_def Let_def emit_def zapCmd_def
        word_sless_alt split: if_splits)
  have "trace w' \<noteq> trace w" by (simp add: w')
  then have "w' \<noteq> w" by auto
  with d' w' g st k show ?thesis by auto
qed

text \<open>Ratio 95 on the sample disk with one volume.\<close>

theorem partitionMixed_reject_not_atomic_witness:
  "0 < sint (95 :: 8 word) \<and> (sint (95 :: 8 word) < 10 \<or> 90 < sint (95 :: 8 word))
   \<and> partitionMixed (sample_env (sample_tool []) True) 95 (sample_disk_vol, sample_world)
       = (- EINVAL, sample_disk\<lparr>mJustPartitioned := True\<rparr>,
          \<lparr>files = [''/data/misc/vold/expand_766f6c642d6469736b2d757569642d31.key'' \<mapsto> ''0123456789abcdef''],
           trace = [EvVolumeDestroy (PublicVolume (makedev 8 1) [] []),
                    EvForkExecvp [''/system/bin/sgdisk'', ''--zap-all'', ''/dev/block/vold/disk:8,0'']]\<rparr>)
   \<and> (sample_disk\<lparr>mJustPartitioned := True\<rparr>,
        \<lparr>files = [''/data/misc/vold/expand_766f6c642d6469736b2d757569642d31.key'' \<mapsto> ''0123456789abcdef''],
         trace = [EvVolumeDestroy (PublicVolume (makedev 8 1) [] []),
                  EvForkExecvp [''/system/bin/sgdisk'', ''--zap-all'', ''/dev/block/vold/disk:8,0'']]\<rparr>)
       \<noteq> (sample_disk_vol, sample_world)"
proof -
  let ?e = "sample_env (sample_tool []) True"
  let ?d = "sample_disk\<lparr>mJustPartitioned := True\<rparr>"
  let ?w = "\<lparr>files = [''/data/misc/vold/expand_766f6c642d6469736b2d757569642d31.key'' \<mapsto> ''0123456789abcdef''],
           trace = [EvVolumeDestroy (PublicVolume (makedev 8 1) [] []),
                    EvForkExecvp [''/system/bin/sgdisk'', ''--zap-all'', ''/dev/block/vold/disk:8,0'']]\<rparr>"
  have a: "0 < sint (95 :: 8 word)" and b: "sint (95 :: 8 word) < 10 \<or> 90 < sint (95 :: 8 word)"
    by simp_all
  have r: "partitionMixed ?e 95 (sample_disk_vol, sample_world) = (- EINVAL, ?d, ?w)"
    by (simp add: partitionMixed_def destroyAllVolumes_def Let_def sample_env_simps word_sless_alt
        StrToHex_sample BuildKeyPath_model_def emit_def sample_disk_vol_def sample_disk_eq
        sample_world_def zapCmd_def kSgdiskPath_def)
  have ne: "(?d, ?w) \<noteq> (sample_disk_vol, sample_world)"
    using partitionMixed_reject_not_atomic [OF a b r] by blast
  from a b r ne show ?thesis by blast
qed

subsection \<open>What a scan leaves unchanged\<close>

lemma extends_refl: "extends dw dw"
  by (simp add: extends_def)

lemma take_prefix_trans:
  assumes "take (length xs) ys = xs" and "take (length ys) zs = ys"
  shows "take (length xs) zs = xs"
proof -
  from assms(1) have "length (take (length xs) ys) = length xs" by simp
  then have l: "length xs \<le> length ys" by simp
  have "take (length xs) zs = take (length xs) (take (length ys) zs)"
    using l by (simp add: min_def)
  with assms show ?thesis by simp
qed

lemma extends_trans:
  assumes "extends a b" and "extends b c"
  shows "extends a c"
proof -
  let ?ta = "trace (snd a)" and ?tb = "trace (snd b)" and ?tc = "trace (snd c)"
  from assms have 1: "fst c = (fst a)\<lparr>mVolumes := mVolumes (fst c)\<rparr>"
    unfolding extends_def
    by (metis (no_types, lifting) Disk.surjective Disk.update_convs(9))
  from assms have 2: "take (length (mVolumes (fst a))) (mVolumes (fst c)) = mVolumes (fst a)"
    unfolding extends_def using take_prefix_trans by blast
  from assms have 3: "files (snd c) = files (snd a)"
    unfolding extends_def by simp
  from assms have ab: "take (length ?ta) ?tb = ?ta" and bc: "take (length ?tb) ?tc = ?tb"
    and eab: "list_all scan_event (drop (length ?ta) ?tb)"
    and ebc: "list_all scan_event (drop (length ?tb) ?tc)"
    unfolding extends_def by simp_all
  have 4: "take (length ?ta) ?tc = ?ta" using ab bc by (rule take_prefix_trans)
  from ab have "length (take (length ?ta) ?tb) = length ?ta" by simp
  then have l: "length ?ta \<le> length ?tb" by simp
  have "?tc = ?tb @ drop (length ?tb) ?tc" using bc by (metis append_take_drop_id)
  then have "drop (length ?ta) ?tc = drop (length ?ta) ?tb @ drop (length ?tb) ?tc"
    using l by (metis drop_append diff_is_0_eq drop0)
  with eab ebc have 5: "list_all scan_event (drop (length ?ta) ?tc)" by simp
  from 1 2 3 4 5 show ?thesis unfolding extends_def by simp
qed

lemma extends_createPublicVolume: "extends (d, w) (createPublicVolume device fstype mntopts (d, w))"
  by (simp add: extends_def createPublicVolume_def Let_def emit_def)

lemma extends_createPrivateVolume: "extends (d, w) (createPrivateVolume e device partGuid (d, w))"
  by (simp add: extends_def createPrivateVolume_def Let_def emit_def split: prod.splits option.splits)

lemma extends_line:
  "extends (d, w) (snd (snd (readPartitions_line e maxMinors line (t, f, d, w))))"
  by (simp add: readPartitions_line_def Let_def extends_refl extends_createPublicVolume
      extends_createPrivateVolume split: list.splits option.splits)

lemma extends_loop:
  "extends (d, w) (snd (snd (readPartitions_loop e maxMinors out (t, f, d, w))))"
proof (induction out arbitrary: t f d w)
  case Nil
  show ?case by (simp add: extends_refl)
next
  case (Cons line out)
  obtain t1 f1 d1 w1 where s: "readPartitions_line e maxMinors line (t, f, d, w) = (t1, f1, d1, w1)"
    by (metis prod_cases4)
  have "extends (d, w) (d1, w1)" using extends_line [of d w e maxMinors line t f] s by simp
  moreover have "extends (d1, w1) (snd (snd (readPartitions_loop e maxMinors out (t1, f1, d1, w1))))"
    by (rule Cons.IH)
  ultimately show ?case using s by (auto intro: extends_trans)
qed

lemma extends_fields:
  assumes "extends (d, w) (d', w')"
  shows "identity d' = identity d" and "mJustPartitioned d' = mJustPartitioned d"
    and "mSkipChange d' = mSkipChange d" and "mCreated d' = mCreated d"
    and "files w' = files w"
    and "\<exists>vs. mVolumes d' = mVolumes d @ vs"
    and "\<exists>evs. trace w' = trace w @ evs \<and> list_all scan_event evs"
proof -
  from assms have eq: "d' = d\<lparr>mVolumes := mVolumes d'\<rparr>" by (simp add: extends_def)
  show "identity d' = identity d" by (subst eq) (simp add: identity_def)
  show "mJustPartitioned d' = mJustPartitioned d" by (subst eq) simp
  show "mSkipChange d' = mSkipChange d" by (subst eq) simp
  show "mCreated d' = mCreated d" by (subst eq) simp
  from assms show "files w' = files w" by (simp add: extends_def)
  from assms have "take (length (mVolumes d)) (mVolumes d') = mVolumes d" by (simp add: extends_def)
  then have "mVolumes d' = mVolumes d @ drop (length (mVolumes d)) (mVolumes d')"
    by (metis append_take_drop_id)
  then show "\<exists>vs. mVolumes d' = mVolumes d @ vs" ..
  from assms have t: "take (length (trace w)) (trace w') = trace w"
    and l: "list_all scan_event (drop (length (trace w)) (trace w'))" by (simp_all add: extends_def)
  from t have "trace w' = trace w @ drop (length (trace w)) (trace w')"
    by (metis append_take_drop_id)
  with l show "\<exists>evs. trace w' = trace w @ evs \<and> list_all scan_event evs" by blast
qed

lemma getMaxMinors_cong:
  "identity d' = identity d \<Longrightarrow> files w' = files w \<Longrightarrow> getMaxMinors e (d', w') = getMaxMinors e (d, w)"
  by (simp add: getMaxMinors_def identity_def Let_def split: option.splits)

lemma identity_simps [simp]:
  "identity (d\<lparr>mVolumes := vs\<rparr>) = identity d"
  "identity (d\<lparr>mSkipChange := b\<rparr>) = identity d"
  "identity (d\<lparr>mJustPartitioned := b\<rparr>) = identity d"
  "identity (d\<lparr>mCreated := b\<rparr>) = identity d"
  "identity (d\<lparr>mSize := sz\<rparr>) = identity d"
  "identity (d\<lparr>mLabel := l\<rparr>) = identity d"
  by (simp_all add: identity_def)

lemma readPartitions_scan:
  assumes "getMaxMinors e (d, w) = Inr maxMinors" and "0 \<le> maxMinors" and "\<not> mSkipChange d"
    and "ForkExecvp e (dumpCmd d) = (OK, out)"
  shows "readPartitions e (d, w) = scan_finish e (readPartitions_loop e maxMinors out (scan_start (d, w)))"
proof -
  have dc: "dumpCmd (d\<lparr>mVolumes := []\<rparr>) = dumpCmd d" by (simp add: dumpCmd_def)
  from assms show ?thesis
    by (simp add: readPartitions_def destroyAllVolumes_def scan_start_def scan_finish_def Let_def
        emit_def dc split: prod.splits)
qed

lemma readPartitions_tool_failed:
  assumes "getMaxMinors e (d, w) = Inr maxMinors" and "0 \<le> maxMinors" and "\<not> mSkipChange d"
    and "fst (ForkExecvp e (dumpCmd d)) \<noteq> OK"
  shows "readPartitions e (d, w) =
     Inr (fst (ForkExecvp e (dumpCmd d)), d\<lparr>mVolumes := [], mJustPartitioned := False\<rparr>,
          notify e (EvDiskScanned (mId d))
            (emit (map EvVolumeDestroy (mVolumes d) @ [EvForkExecvp (dumpCmd d)]) w))"
proof -
  obtain res out where fe: "ForkExecvp e (dumpCmd d) = (res, out)"
    by (cases "ForkExecvp e (dumpCmd d)")
  have dc: "dumpCmd (d\<lparr>mVolumes := []\<rparr>) = dumpCmd d" by (simp add: dumpCmd_def)
  from assms fe show ?thesis
    by (simp add: readPartitions_def destroyAllVolumes_def Let_def emit_def dc)
qed

lemma extends_scan_finish:
  assumes "extends (d, w) (d2, w2)"
  shows "\<exists>d3 w3. scan_finish e (t, f, d2, w2)
            = Inr (OK, d3\<lparr>mJustPartitioned := False\<rparr>, notify e (EvDiskScanned (mId d)) w3)
          \<and> extends (d, w) (d3, w3)"
proof -
  have a: "extends (d2, w2) (d2, emit [EvReadMetadataUntrusted (mDevPath d2)] w2)"
    by (simp add: extends_def emit_def)
  have b: "extends (d2, emit [EvReadMetadataUntrusted (mDevPath d2)] w2)
      (createPublicVolume (mDevice d2) [] [] (d2, emit [EvReadMetadataUntrusted (mDevPath d2)] w2))"
    by (rule extends_createPublicVolume)
  define dw3 where "dw3 =
    (if t = kUnknown \<or> \<not> f then
               (let w2' = emit [EvReadMetadataUntrusted (mDevPath d2)] w2
                in if ReadMetadataUntrusted e (mDevPath d2) = OK
                   then createPublicVolume (mDevice d2) [] [] (d2, w2')
                   else (d2, w2'))
             else (d2, w2))"
  have "extends (d2, w2) dw3"
  proof (cases "t = kUnknown \<or> \<not> f")
    case False
    then show ?thesis by (simp add: dw3_def extends_refl)
  next
    case True
    show ?thesis
    proof (cases "ReadMetadataUntrusted e (mDevPath d2) = OK")
      case False
      with True a show ?thesis by (simp add: dw3_def Let_def)
    next
      case ok: True
      from a b have "extends (d2, w2) (createPublicVolume (mDevice d2) [] []
          (d2, emit [EvReadMetadataUntrusted (mDevPath d2)] w2))" by (rule extends_trans)
      with True ok show ?thesis by (simp add: dw3_def Let_def)
    qed
  qed
  with assms have e3: "extends (d, w) dw3" by (rule extends_trans)
  obtain d3 w3 where dw3: "dw3 = (d3, w3)" by (cases dw3)
  from e3 dw3 have e3': "extends (d, w) (d3, w3)" by simp
  from extends_fields(1) [OF e3'] have "mId d3 = mId d" by (simp add: identity_def)
  moreover have "scan_finish e (t, f, d2, w2) =
      (case dw3 of (d3, w3) \<Rightarrow>
         Inr (OK, d3\<lparr>mJustPartitioned := False\<rparr>, notify e (EvDiskScanned (mId d3)) w3))"
    unfolding scan_finish_def dw3_def Let_def by simp
  ultimately have "scan_finish e (t, f, d2, w2)
            = Inr (OK, d3\<lparr>mJustPartitioned := False\<rparr>, notify e (EvDiskScanned (mId d)) w3)"
    using dw3 by simp
  with e3' show ?thesis by blast
qed

lemma readPartitions_past_checks:
  assumes "getMaxMinors e (d, w) = Inr maxMinors" and "0 \<le> maxMinors" and "\<not> mSkipChange d"
  shows "\<exists>st d' w' evs. readPartitions e (d, w) = Inr (st, d', w')
     \<and> \<not> mJustPartitioned d'
     \<and> trace w' = trace w @ map EvVolumeDestroy (mVolumes d) @ [EvForkExecvp (dumpCmd d)] @ evs
                   @ (if getListener e then [EvDiskScanned (mId d)] else [])
     \<and> list_all scan_event evs
     \<and> (fst (ForkExecvp e (dumpCmd d)) \<noteq> OK \<longrightarrow>
          st = fst (ForkExecvp e (dumpCmd d)) \<and> evs = [] \<and> mVolumes d' = [])"
proof (cases "fst (ForkExecvp e (dumpCmd d)) = OK")
  case False
  from readPartitions_tool_failed [OF assms False] show ?thesis
    by (simp add: notify_def emit_def)
next
  case True
  then obtain out where fe: "ForkExecvp e (dumpCmd d) = (OK, out)"
    by (metis prod.collapse)
  obtain t f d2 w2 where lp: "readPartitions_loop e maxMinors out (scan_start (d, w)) = (t, f, d2, w2)"
    by (metis prod_cases4)
  let ?d0 = "d\<lparr>mVolumes := []\<rparr>"
  let ?w0 = "emit (map EvVolumeDestroy (mVolumes d) @ [EvForkExecvp (dumpCmd d)]) w"
  have "extends (?d0, ?w0) (d2, w2)"
    using extends_loop [of ?d0 ?w0 e maxMinors out kUnknown False] lp
    by (simp add: scan_start_def)
  from extends_scan_finish [OF this, of e t f] obtain d3 w3 where
    fin: "scan_finish e (t, f, d2, w2) = Inr (OK, d3\<lparr>mJustPartitioned := False\<rparr>, notify e (EvDiskScanned (mId ?d0)) w3)"
    and ex: "extends (?d0, ?w0) (d3, w3)" by blast
  from extends_fields(7) [OF ex] obtain evs where
    tr: "trace w3 = trace ?w0 @ evs" and ev: "list_all scan_event evs" by blast
  have "readPartitions e (d, w) = Inr (OK, d3\<lparr>mJustPartitioned := False\<rparr>, notify e (EvDiskScanned (mId d)) w3)"
    using readPartitions_scan [OF assms fe] lp fin by simp
  with tr ev True show ?thesis
    by (simp add: notify_def emit_def)
qed

text \<open>
  Claim C5.  Whenever \<^verbatim>\<open>readPartitions\<close> gets past its two checks (the maximum of
  minors is not negative and \<^verbatim>\<open>mSkipChange\<close> is clear), it returns with
  \<^verbatim>\<open>mJustPartitioned\<close> cleared, and with a listener present the last thing it does is
  \<^verbatim>\<open>onDiskScanned\<close>, once: the trace grows by the destruction of the old volumes, the
  dump, volume and probe calls, and then the notification (the listener is optional, and
  without one there is nobody to notify).  When the dump tool fails, all that still
  happens, no volume is created and the tool's status is returned.
\<close>

theorem readPartitions_fires_scanned:
  assumes "getMaxMinors e (d, w) = Inr maxMinors" and "0 \<le> maxMinors" and "\<not> mSkipChange d"
  shows "\<exists>st d' w' evs. readPartitions e (d, w) = Inr (st, d', w')
     \<and> \<not> mJustPartitioned d'
     \<and> trace w' = trace w @ map EvVolumeDestroy (mVolumes d) @ [EvForkExecvp (dumpCmd d)] @ evs
                   @ (if getListener e then [EvDiskScanned (mId d)] else [])
     \<and> list_all scan_event evs
     \<and> (fst (ForkExecvp e (dumpCmd d)) \<noteq> OK \<longrightarrow>
          st = fst (ForkExecvp e (dumpCmd d)) \<and> evs = [] \<and> mVolumes d' = [])"
  using assms by (rule readPartitions_past_checks)

lemma getMaxMinors_skipChange:
  "getMaxMinors e (d\<lparr>mSkipChange := b\<rparr>, w) = getMaxMinors e (d, w)"
  by (rule getMaxMinors_cong) simp_all

text \<open>
  Claim C6.  With \<^verbatim>\<open>mSkipChange\<close> set (and a maximum of minors that is not negative),
  \<^verbatim>\<open>readPartitions\<close> returns \<^verbatim>\<open>OK\<close> and changes nothing but the flag: no tool is
  run, no volume is destroyed, the trace is as it was.  Called again on that state, it
  destroys the volumes and runs the dump tool: a real scan.
\<close>

theorem readPartitions_skipChange:
  assumes "getMaxMinors e (d, w) = Inr maxMinors" and "0 \<le> maxMinors" and "mSkipChange d"
  shows "readPartitions e (d, w) = Inr (OK, d\<lparr>mSkipChange := False\<rparr>, w)
     \<and> (\<exists>st d' w' evs. readPartitions e (d\<lparr>mSkipChange := False\<rparr>, w) = Inr (st, d', w')
           \<and> trace w' = trace w @ map EvVolumeDestroy (mVolumes d) @ [EvForkExecvp (dumpCmd d)] @ evs)"
proof
  show "readPartitions e (d, w) = Inr (OK, d\<lparr>mSkipChange := False\<rparr>, w)"
    using assms by (simp add: readPartitions_def)
next
  let ?d = "d\<lparr>mSkipChange := False\<rparr>"
  have mm: "getMaxMinors e (?d, w) = Inr maxMinors"
    using assms(1) by (simp add: getMaxMinors_skipChange)
  have "\<not> mSkipChange ?d" by simp
  from readPartitions_past_checks [OF mm assms(2) this]
  show "\<exists>st d' w' evs. readPartitions e (?d, w) = Inr (st, d', w')
           \<and> trace w' = trace w @ map EvVolumeDestroy (mVolumes d) @ [EvForkExecvp (dumpCmd d)] @ evs"
    by (auto simp: dumpCmd_def)
qed

subsection \<open>Comparing GUIDs\<close>

lemma tolower_c_nul: "tolower_c b = CHR 0x00 \<Longrightarrow> b = CHR 0x00"
  by (simp add: tolower_c_def split: if_splits)

lemma tolower_c_of_nul: "tolower_c (CHR 0x00) = CHR 0x00"
  by (simp add: tolower_c_def)

lemma EqualsIgnoreCase_iff:
  assumes "CHR 0x00 \<notin> set k"
  shows "EqualsIgnoreCase t k = same_ignoring_case t k"
proof -
  have "length t = length k \<Longrightarrow> CHR 0x00 \<notin> set k \<Longrightarrow>
      strncasecmp_eq t k = (map tolower_c t = map tolower_c k)" for t k
  proof (induction t k rule: list_induct2)
    case Nil
    show ?case by simp
  next
    case (Cons a as b bs)
    then have "b \<noteq> CHR 0x00" by auto
    then have "a = CHR 0x00 \<Longrightarrow> tolower_c a \<noteq> tolower_c b"
      using tolower_c_nul [of b] by (auto simp: tolower_c_of_nul)
    with Cons show ?case by auto
  qed
  moreover have "map tolower_c t = map tolower_c k \<Longrightarrow> length t = length k"
    by (metis length_map)
  ultimately show ?thesis using assms
    by (auto simp: EqualsIgnoreCase_def same_ignoring_case_def)
qed

lemma kGpt_no_nul:
  "CHR 0x00 \<notin> set kGptBasicData" "CHR 0x00 \<notin> set kGptLinuxFilesystem"
  "CHR 0x00 \<notin> set kGptAndroidExpand"
  by (simp_all add: kGptBasicData_def kGptLinuxFilesystem_def kGptAndroidExpand_def)

subsection \<open>The whole-disk fallback\<close>

lemma readPartitions_line_table:
  "fst (readPartitions_line e maxMinors line (t, f, d, w))
     = (case table_of_line line of Some t' \<Rightarrow> t' | None \<Rightarrow> t)"
  by (simp add: readPartitions_line_def table_of_line_def Let_def
      split: list.splits option.splits)

lemma readPartitions_line_unknown:
  assumes "table_of_line line = None"
  shows "\<exists>f'. readPartitions_line e maxMinors line (kUnknown, f, d, w) = (kUnknown, f', d, w)"
proof -
  have "fst (readPartitions_line e maxMinors line (kUnknown, f, d, w)) = kUnknown"
    using assms by (simp add: readPartitions_line_table)
  moreover have "snd (snd (readPartitions_line e maxMinors line (kUnknown, f, d, w))) = (d, w)"
    by (simp add: readPartitions_line_def Let_def split: list.splits option.splits)
  ultimately show ?thesis
    by (cases "readPartitions_line e maxMinors line (kUnknown, f, d, w)") simp
qed

lemma readPartitions_line_no_part:
  assumes "\<not> is_part_line line"
  shows "\<exists>t'. readPartitions_line e maxMinors line (t, f, d, w) = (t', f, d, w)"
proof -
  have "fst (snd (readPartitions_line e maxMinors line (t, f, d, w))) = f"
    using assms
    by (simp add: readPartitions_line_def is_part_line_def Let_def split: list.splits)
  moreover have "snd (snd (readPartitions_line e maxMinors line (t, f, d, w))) = (d, w)"
    using assms
    by (simp add: readPartitions_line_def is_part_line_def Let_def split: list.splits)
  ultimately show ?thesis
    by (cases "readPartitions_line e maxMinors line (t, f, d, w)") simp
qed

lemma readPartitions_loop_unknown:
  assumes "list_all (\<lambda>l. table_of_line l = None) out"
  shows "\<exists>f'. readPartitions_loop e maxMinors out (kUnknown, f, d, w) = (kUnknown, f', d, w)"
  using assms
proof (induction out arbitrary: f)
  case Nil
  show ?case by simp
next
  case (Cons line out)
  then have "table_of_line line = None" by simp
  from readPartitions_line_unknown [OF this, of e maxMinors f d w] obtain f1 where
    "readPartitions_line e maxMinors line (kUnknown, f, d, w) = (kUnknown, f1, d, w)" by blast
  moreover from Cons have "\<exists>f'. readPartitions_loop e maxMinors out (kUnknown, f1, d, w) = (kUnknown, f', d, w)"
    by simp
  ultimately show ?case by simp
qed

lemma readPartitions_loop_no_part:
  assumes "list_all (\<lambda>l. \<not> is_part_line l) out"
  shows "\<exists>t'. readPartitions_loop e maxMinors out (t, f, d, w) = (t', f, d, w)"
  using assms
proof (induction out arbitrary: t)
  case Nil
  show ?case by simp
next
  case (Cons line out)
  then have "\<not> is_part_line line" by simp
  from readPartitions_line_no_part [OF this, of e maxMinors t f d w] obtain t1 where
    "readPartitions_line e maxMinors line (t, f, d, w) = (t1, f, d, w)" by blast
  moreover from Cons have "\<exists>t'. readPartitions_loop e maxMinors out (t1, f, d, w) = (t', f, d, w)"
    by simp
  ultimately show ?case by simp
qed

text \<open>
  Claim C8.  When the tool's output records no table kind, or holds no \<^verbatim>\<open>PART\<close> line,
  the scan probes the whole disk: if the probe recognises a filesystem the disk ends
  with exactly one volume, a public one on the disk's own device, and if not it ends
  with none.
\<close>

theorem readPartitions_whole_disk:
  assumes "getMaxMinors e (d, w) = Inr maxMinors" and "0 \<le> maxMinors" and "\<not> mSkipChange d"
    and "ForkExecvp e (dumpCmd d) = (OK, out)"
    and "list_all (\<lambda>l. table_of_line l = None) out \<or> list_all (\<lambda>l. \<not> is_part_line l) out"
  shows "\<exists>w'. readPartitions e (d, w) =
       Inr (OK,
            d\<lparr>mVolumes := (if ReadMetadataUntrusted e (mDevPath d) = OK
                            then [(PublicVolume (mDevice d) [] [])\<lparr>vDiskId := mId d\<rparr>] else []),
              mJustPartitioned := False\<rparr>,
            w')
     \<and> EvReadMetadataUntrusted (mDevPath d) \<in> set (trace w')"
proof -
  obtain d0 w0 where s0: "scan_start (d, w) = (kUnknown, False, d0, w0)"
    and d0: "d0 = d\<lparr>mVolumes := []\<rparr>"
    by (simp add: scan_start_def)
  have "\<exists>t f. readPartitions_loop e maxMinors out (kUnknown, False, d0, w0) = (t, f, d0, w0)
           \<and> (t = kUnknown \<or> \<not> f)"
    using assms(5) readPartitions_loop_unknown [of out e maxMinors False d0 w0]
      readPartitions_loop_no_part [of out e maxMinors kUnknown False d0 w0] by auto
  then obtain t f where lp: "readPartitions_loop e maxMinors out (kUnknown, False, d0, w0) = (t, f, d0, w0)"
    and fb: "t = kUnknown \<or> \<not> f" by blast
  have "readPartitions e (d, w) = scan_finish e (t, f, d0, w0)"
    using readPartitions_scan [OF assms(1-4)] s0 lp by simp
  with fb d0 show ?thesis
    by (auto simp: scan_finish_def Let_def createPublicVolume_def emit_def notify_def PublicVolume_def)
qed

subsection \<open>partitionPublic and the skipped change\<close>

lemma prescan_reports_Cons:
  "prescan_reports (line # out) = (case prescan_kind line of Some t \<Rightarrow> t | None \<Rightarrow> prescan_reports out)"
  by (simp add: prescan_reports_def List.map_filter_simps split: option.splits)

lemma partitionPublic_table_step:
  "\<not> bare_disk_line line \<Longrightarrow>
   partitionPublic_table (line # out) =
     (case prescan_kind line of Some t \<Rightarrow> Inr t | None \<Rightarrow> partitionPublic_table out)"
  by (simp add: prescan_kind_def bare_disk_line_def split: list.splits)

lemma partitionPublic_table_reports:
  assumes "list_all (\<lambda>l. \<not> bare_disk_line l) (takeWhile (\<lambda>l. prescan_kind l = None) out)"
  shows "partitionPublic_table out = Inr (prescan_reports out)"
  using assms
proof (induction out)
  case Nil
  show ?case by (simp add: prescan_reports_def List.map_filter_simps)
next
  case (Cons line out)
  show ?case
  proof (cases "prescan_kind line")
    case None
    with Cons.prems have nb: "\<not> bare_disk_line line"
      and rest: "list_all (\<lambda>l. \<not> bare_disk_line l) (takeWhile (\<lambda>l. prescan_kind l = None) out)"
      by simp_all
    from Cons.IH [OF rest] None show ?thesis
      by (subst partitionPublic_table_step [OF nb]) (simp add: prescan_reports_Cons)
  next
    case (Some t)
    then have nb: "\<not> bare_disk_line line"
      by (auto simp: prescan_kind_def bare_disk_line_def)
    from Some show ?thesis
      by (subst partitionPublic_table_step [OF nb]) (simp add: prescan_reports_Cons)
  qed
qed

text \<open>
  \<^verbatim>\<open>partitionPublic\<close> entered with \<^verbatim>\<open>mSkipChange\<close> clear, on an output where no bare
  \<^verbatim>\<open>DISK\<close> line comes before the first line naming a kind (or after a failed dump):
  it returns, the flag is set exactly when the look at the current table succeeded and
  reported MBR, and the two rewriting commands run whatever the flag.
\<close>

lemma partitionPublic_skipChange:
  assumes "\<not> mSkipChange d"
    and "ForkExecvp e (dumpCmd d) = (res, out)"
    and "res \<noteq> OK \<or> list_all (\<lambda>l. \<not> bare_disk_line l) (takeWhile (\<lambda>l. prescan_kind l = None) out)"
  shows "\<exists>d' w'. partitionPublic e (d, w) = Inr (fst (ForkExecvp e (publicCmd d)), d', w')
     \<and> mSkipChange d' = (res = OK \<and> prescan_reports out = kMbr)
     \<and> (res \<noteq> OK \<or> prescan_reports out = kUnknown \<longrightarrow> \<not> mSkipChange d')
     \<and> trace w' = trace w @ map EvVolumeDestroy (mVolumes d)
                   @ [EvForkExecvp (dumpCmd d), EvForkExecvp (zapCmd d), EvForkExecvp (publicCmd d)]"
proof -
  have c: "dumpCmd (d\<lparr>mVolumes := [], mJustPartitioned := True\<rparr>) = dumpCmd d"
    by (simp add: dumpCmd_def)
  have t: "(if res = OK then partitionPublic_table out else Inr kUnknown)
      = Inr (if res = OK then prescan_reports out else kUnknown)"
    using assms(3) by (auto simp: partitionPublic_table_reports)
  show ?thesis
    using assms(1,2) t
    by (simp add: partitionPublic_def destroyAllVolumes_def Let_def c emit_def zapCmd_def
        publicCmd_def OK_def)
qed

subsection \<open>create and destroy\<close>

lemma readMetadata_frame:
  assumes "readMetadata e (d, w) = (st, d', w')"
  shows "identity d' = identity d \<and> mVolumes d' = mVolumes d \<and> mCreated d' = mCreated d
     \<and> mSkipChange d' = mSkipChange d \<and> files w' = files w"
proof (cases "mSkipChange d")
  case True
  with assms show ?thesis by (simp add: readMetadata_def)
next
  case False
  obtain s sz where g: "GetBlockDevSize e (mDevPath d) = (s, sz)"
    by (cases "GetBlockDevSize e (mDevPath d)")
  from assms False g show ?thesis
    by (auto simp: readMetadata_def Let_def notify_def emit_def identity_def
        split: if_splits option.splits)
qed

lemma readPartitions_frame:
  assumes "getMaxMinors e (d, w) = Inr maxMinors"
  shows "\<exists>st d' w'. readPartitions e (d, w) = Inr (st, d', w')
     \<and> identity d' = identity d \<and> mCreated d' = mCreated d \<and> files w' = files w"
proof (cases "maxMinors < 0 \<or> mSkipChange d")
  case True
  with assms show ?thesis by (auto simp: readPartitions_def)
next
  case False
  then have ge: "0 \<le> maxMinors" and sk: "\<not> mSkipChange d" by auto
  show ?thesis
  proof (cases "fst (ForkExecvp e (dumpCmd d)) = OK")
    case False
    from readPartitions_tool_failed [OF assms ge sk False] show ?thesis
      by (simp add: notify_def emit_def)
  next
    case True
    then obtain out where fe: "ForkExecvp e (dumpCmd d) = (OK, out)"
      by (metis prod.collapse)
    obtain t f d2 w2 where lp: "readPartitions_loop e maxMinors out (scan_start (d, w)) = (t, f, d2, w2)"
      by (metis prod_cases4)
    let ?d0 = "d\<lparr>mVolumes := []\<rparr>"
    let ?w0 = "emit (map EvVolumeDestroy (mVolumes d) @ [EvForkExecvp (dumpCmd d)]) w"
    have "extends (?d0, ?w0) (d2, w2)"
      using extends_loop [of ?d0 ?w0 e maxMinors out kUnknown False] lp
      by (simp add: scan_start_def)
    from extends_scan_finish [OF this, of e t f] obtain d3 w3 where
      fin: "scan_finish e (t, f, d2, w2) = Inr (OK, d3\<lparr>mJustPartitioned := False\<rparr>, notify e (EvDiskScanned (mId ?d0)) w3)"
      and ex: "extends (?d0, ?w0) (d3, w3)" by blast
    have r: "readPartitions e (d, w) = Inr (OK, d3\<lparr>mJustPartitioned := False\<rparr>, notify e (EvDiskScanned (mId d)) w3)"
      using readPartitions_scan [OF assms ge sk fe] lp fin by simp
    from extends_fields(1,4,5) [OF ex] have "identity d3 = identity d" "mCreated d3 = mCreated d"
      "files w3 = files w" by (simp_all add: emit_def)
    with r show ?thesis by (simp add: notify_def emit_def)
  qed
qed

lemma create_ok:
  assumes "\<not> mCreated d" and "\<not> isStub e d" and "getMaxMinors e (d, w) = Inr maxMinors"
  shows "\<exists>d' w'. create e (d, w) = Inr (OK, d', w') \<and> mCreated d'
     \<and> identity d' = identity d \<and> files w' = files w"
proof -
  let ?d = "d\<lparr>mCreated := True\<rparr>"
  let ?w = "notify e (EvDiskCreated (mId d) (mFlags d)) w"
  obtain st d1 w1 where rm: "readMetadata e (?d, ?w) = (st, d1, w1)"
    by (metis prod_cases3)
  from readMetadata_frame [OF rm] have f1: "identity d1 = identity d" "mCreated d1"
    "files w1 = files w" by (simp_all add: notify_def emit_def)
  have "getMaxMinors e (d1, w1) = Inr maxMinors"
    using getMaxMinors_cong [OF f1(1,3), of e] assms(3) by simp
  from readPartitions_frame [OF this] obtain st2 d2 w2 where
    rp: "readPartitions e (d1, w1) = Inr (st2, d2, w2)"
    and f2: "identity d2 = identity d1" "mCreated d2 = mCreated d1" "files w2 = files w1" by blast
  have "create e (d, w) = Inr (OK, d2, w2)"
    using assms(1,2) rm rp by (simp add: create_def isStub_def Let_def)
  with f1 f2 show ?thesis by simp
qed

lemma destroy_ok:
  assumes "mCreated d"
  shows "\<exists>w'. destroy e (d, w) = Inr (OK, d\<lparr>mVolumes := [], mCreated := False\<rparr>, w')
     \<and> files w' = files w"
  using assms by (simp add: destroy_def destroyAllVolumes_def Let_def notify_def emit_def)

lemma isStub_identity: "identity d' = identity d \<Longrightarrow> isStub e d' = isStub e d"
  by (simp add: isStub_def identity_def)

text \<open>
  Claim C4, as the code has it.  On every disk \<^verbatim>\<open>create()\<close> on a created disk and
  \<^verbatim>\<open>destroy()\<close> on a disk that is not created fail their \<^verbatim>\<open>CHECK\<close>, and a
  \<^verbatim>\<open>destroy()\<close> that succeeds leaves no volume.  On a disk that is not a stub and whose
  maximum of minors can be read without an exception, \<^verbatim>\<open>create()\<close>, \<^verbatim>\<open>destroy()\<close>,
  \<^verbatim>\<open>create()\<close>, \<^verbatim>\<open>destroy()\<close> all return \<^verbatim>\<open>OK\<close>.  On a stub disk
  \<^verbatim>\<open>create()\<close> fails a \<^verbatim>\<open>CHECK\<close> unless the disk holds exactly one volume, which
  it does not after \<^verbatim>\<open>destroy()\<close>.
\<close>

theorem create_destroy_alternate:
  "(mCreated d \<longrightarrow> create e (d, w) = Inl CheckFailed)
   \<and> (\<not> mCreated d \<longrightarrow> destroy e (d, w) = Inl CheckFailed)
   \<and> (mCreated d \<longrightarrow> (\<exists>d' w'. destroy e (d, w) = Inr (OK, d', w') \<and> mVolumes d' = [] \<and> \<not> mCreated d'))
   \<and> (isStub e d \<and> length (mVolumes d) \<noteq> 1 \<longrightarrow> create e (d, w) = Inl CheckFailed)
   \<and> (\<not> mCreated d \<and> \<not> isStub e d \<and> getMaxMinors e (d, w) = Inr maxMinors \<longrightarrow>
        (\<exists>d1 w1 d2 w2 d3 w3 d4 w4.
            create e (d, w) = Inr (OK, d1, w1) \<and> mCreated d1
          \<and> destroy e (d1, w1) = Inr (OK, d2, w2) \<and> mVolumes d2 = [] \<and> \<not> mCreated d2
          \<and> create e (d2, w2) = Inr (OK, d3, w3) \<and> mCreated d3
          \<and> destroy e (d3, w3) = Inr (OK, d4, w4) \<and> mVolumes d4 = [] \<and> \<not> mCreated d4))"
proof (intro conjI impI)
  assume "mCreated d"
  then show "create e (d, w) = Inl CheckFailed" by (simp add: create_def)
next
  assume "\<not> mCreated d"
  then show "destroy e (d, w) = Inl CheckFailed" by (simp add: destroy_def)
next
  assume "mCreated d"
  from destroy_ok [OF this, of e w]
  show "\<exists>d' w'. destroy e (d, w) = Inr (OK, d', w') \<and> mVolumes d' = [] \<and> \<not> mCreated d'"
    by auto
next
  assume "isStub e d \<and> length (mVolumes d) \<noteq> 1"
  then show "create e (d, w) = Inl CheckFailed"
    by (cases "mVolumes d"; cases "tl (mVolumes d)")
      (auto simp: create_def createStubVolume_def isStub_def Let_def split: list.splits)
next
  assume a: "\<not> mCreated d \<and> \<not> isStub e d \<and> getMaxMinors e (d, w) = Inr maxMinors"
  then have nc: "\<not> mCreated d" and ns: "\<not> isStub e d" and mm: "getMaxMinors e (d, w) = Inr maxMinors"
    by simp_all
  from create_ok [OF nc ns mm] obtain d1 w1 where
    c1: "create e (d, w) = Inr (OK, d1, w1)" and m1: "mCreated d1"
    and i1: "identity d1 = identity d" and f1: "files w1 = files w" by blast
  let ?d2 = "d1\<lparr>mVolumes := [], mCreated := False\<rparr>"
  from destroy_ok [OF m1, of e w1] obtain w2 where
    d2: "destroy e (d1, w1) = Inr (OK, ?d2, w2)" and f2: "files w2 = files w1" by blast
  have i2: "identity ?d2 = identity d" using i1 by simp
  have nc2: "\<not> mCreated ?d2" by simp
  have ns2: "\<not> isStub e ?d2" using ns isStub_identity [OF i2] by simp
  have mm2: "getMaxMinors e (?d2, w2) = Inr maxMinors"
    using getMaxMinors_cong [OF i2, of w2 w e] f1 f2 mm by simp
  from create_ok [OF nc2 ns2 mm2] obtain d3 w3 where
    c3: "create e (?d2, w2) = Inr (OK, d3, w3)" and m3: "mCreated d3" by blast
  from destroy_ok [OF m3, of e w3] obtain w4 where
    d4: "destroy e (d3, w3) = Inr (OK, d3\<lparr>mVolumes := [], mCreated := False\<rparr>, w4)" by blast
  from c1 m1 d2 c3 m3 d4
  show "\<exists>d1 w1 d2 w2 d3 w3 d4 w4.
            create e (d, w) = Inr (OK, d1, w1) \<and> mCreated d1
          \<and> destroy e (d1, w1) = Inr (OK, d2, w2) \<and> mVolumes d2 = [] \<and> \<not> mCreated d2
          \<and> create e (d2, w2) = Inr (OK, d3, w3) \<and> mCreated d3
          \<and> destroy e (d3, w3) = Inr (OK, d4, w4) \<and> mVolumes d4 = [] \<and> \<not> mCreated d4"
    by (intro exI [of _ d1] exI [of _ w1] exI [of _ ?d2] exI [of _ w2] exI [of _ d3]
        exI [of _ w3] exI [of _ "d3\<lparr>mVolumes := [], mCreated := False\<rparr>"] exI [of _ w4]) simp
qed

subsection \<open>The key of a private partition\<close>

lemma partitionMixed_ok:
  assumes "partitionMixed e ratio (d, w) = (OK, d1, w1)"
  shows "\<exists>raw key. GenerateRandomUuid e = (OK, raw) \<and> generate_volume_key e = Some key
     \<and> files w1 (BuildKeyPath e (StrToHex e raw)) = Some key"
proof -
  obtain st raw where g: "GenerateRandomUuid e = (st, raw)" by (cases "GenerateRandomUuid e")
  from assms g have st: "st = OK"
    by (auto simp: partitionMixed_def destroyAllVolumes_def Let_def EIO_def OK_def
        split: if_splits)
  from assms g st obtain key where k: "generate_volume_key e = Some key"
    by (cases "generate_volume_key e")
      (auto simp: partitionMixed_def destroyAllVolumes_def Let_def EIO_def OK_def)
  from assms g st k have wr: "WriteStringToFile e key (BuildKeyPath e (StrToHex e raw))"
    by (auto simp: partitionMixed_def destroyAllVolumes_def Let_def EIO_def OK_def
        split: if_splits)
  from assms g st k wr have "files w1 (BuildKeyPath e (StrToHex e raw)) = Some key"
    by (auto simp: partitionMixed_def destroyAllVolumes_def Let_def emit_def EINVAL_def OK_def
        split: if_splits)
  with g st k show ?thesis by blast
qed

lemma readPartitions_loop_append:
  "readPartitions_loop e maxMinors (xs @ ys) st
     = readPartitions_loop e maxMinors ys (readPartitions_loop e maxMinors xs st)"
  by (induction xs arbitrary: st) simp_all

lemma readPartitions_loop_table:
  "fst (readPartitions_loop e maxMinors out (t, f, d, w)) = table_after out t"
proof (induction out arbitrary: t f d w)
  case Nil
  show ?case by simp
next
  case (Cons line out)
  obtain t1 f1 d1 w1 where s: "readPartitions_line e maxMinors line (t, f, d, w) = (t1, f1, d1, w1)"
    by (metis prod_cases4)
  with readPartitions_line_table [of e maxMinors line t f d w]
  have "t1 = (case table_of_line line of Some t' \<Rightarrow> t' | None \<Rightarrow> t)" by simp
  with s Cons.IH [of t1 f1 d1 w1] show ?case by simp
qed

lemma expand_not_public:
  assumes "same_ignoring_case typeGuid kGptAndroidExpand"
  shows "\<not> same_ignoring_case typeGuid kGptBasicData"
    and "\<not> same_ignoring_case typeGuid kGptLinuxFilesystem"
  using assms
  by (simp_all add: same_ignoring_case_def kGptAndroidExpand_def kGptBasicData_def
      kGptLinuxFilesystem_def tolower_c_def)

lemma createPrivateVolume_key:
  assumes "NormalizeHex e partGuid = (OK, hex)" and "files w (BuildKeyPath e hex) = Some key"
  shows "\<exists>evs. createPrivateVolume e device partGuid (d, w) =
       (d\<lparr>mVolumes := mVolumes d @ [(PrivateVolume device key)\<lparr>vDiskId := mId d, vPartGuid := partGuid\<rparr>]\<rparr>,
        emit (evs @ [EvVolumeCreate ((PrivateVolume device key)\<lparr>vDiskId := mId d, vPartGuid := partGuid\<rparr>)]) w)"
proof (cases "mJustPartitioned d")
  case True
  with assms show ?thesis
    by (intro exI [of _ "[EvVolumeCreate ((PrivateVolume device key)\<lparr>vSilent := True\<rparr>),
          EvVolumeFormat ((PrivateVolume device key)\<lparr>vSilent := True\<rparr>) ''auto'',
          EvVolumeDestroy ((PrivateVolume device key)\<lparr>vSilent := True\<rparr>)]"])
      (simp add: createPrivateVolume_def Let_def emit_def OK_def)
next
  case False
  with assms show ?thesis
    by (intro exI [of _ "[]"]) (simp add: createPrivateVolume_def Let_def emit_def OK_def)
qed

text \<open>
  Claim C3.  After \<^verbatim>\<open>partitionMixed\<close> or \<^verbatim>\<open>partitionPrivate\<close> returned \<^verbatim>\<open>OK\<close>, the
  generated key is in the store under the path of the generated identifier's hex form.
  Every later scan that gets past its checks, whose tool output holds, after a GPT table
  was recorded, a \<^verbatim>\<open>PART\<close> record of the Android-expand type whose partition GUID
  normalises to that hex form, reads that entry (as long as it is still what was stored)
  and creates a private volume on the record's child device whose key is the stored key.
\<close>

theorem partition_scan_key_roundtrip:
  assumes pm: "partitionMixed e ratio (d, w) = (OK, d1, w1) \<or> partitionPrivate e (d, w) = (OK, d1, w1)"
    and uuid: "GenerateRandomUuid e = (st0, raw)"
    and store: "files w2 (BuildKeyPath e (StrToHex e raw)) = files w1 (BuildKeyPath e (StrToHex e raw))"
    and path: "BuildKeyPath e2 = BuildKeyPath e"
    and norm: "NormalizeHex e2 partGuid = (OK, StrToHex e raw)"
    and mm: "getMaxMinors e2 (d2, w2) = Inr maxMinors" and ge: "0 \<le> maxMinors"
    and sk: "\<not> mSkipChange d2"
    and fe: "ForkExecvp e2 (dumpCmd d2) = (OK, pre @ line # post)"
    and gpt: "table_after pre kUnknown = kGpt"
    and toks: "Split line kSgdiskToken = ''PART'' # num # typeGuid # partGuid # more_tokens"
    and num: "ParseInt num 1 maxMinors = Some i"
    and ty: "same_ignoring_case typeGuid kGptAndroidExpand"
  shows "\<exists>key st d3 w3. generate_volume_key e = Some key
     \<and> files w1 (BuildKeyPath e (StrToHex e raw)) = Some key
     \<and> readPartitions e2 (d2, w2) = Inr (st, d3, w3)
     \<and> (PrivateVolume (childDevice d2 i) key)\<lparr>vDiskId := mId d2, vPartGuid := partGuid\<rparr>
           \<in> set (mVolumes d3)
     \<and> EvVolumeCreate ((PrivateVolume (childDevice d2 i) key)\<lparr>vDiskId := mId d2, vPartGuid := partGuid\<rparr>)
           \<in> set (trace w3)"
proof -
  from pm obtain r where "partitionMixed e r (d, w) = (OK, d1, w1)"
    by (auto simp: partitionPrivate_def)
  from partitionMixed_ok [OF this] uuid obtain key where
    k: "generate_volume_key e = Some key"
    and f1: "files w1 (BuildKeyPath e (StrToHex e raw)) = Some key" by auto
  let ?vol = "(PrivateVolume (childDevice d2 i) key)\<lparr>vDiskId := mId d2, vPartGuid := partGuid\<rparr>"
  let ?d0 = "d2\<lparr>mVolumes := []\<rparr>"
  let ?w0 = "emit (map EvVolumeDestroy (mVolumes d2) @ [EvForkExecvp (dumpCmd d2)]) w2"
  \<comment> \<open>the lines before the record\<close>
  obtain ta fa da wa where la: "readPartitions_loop e2 maxMinors pre (kUnknown, False, ?d0, ?w0) = (ta, fa, da, wa)"
    by (metis prod_cases4)
  have ta: "ta = kGpt"
    using readPartitions_loop_table [of e2 maxMinors pre kUnknown False ?d0 ?w0] la gpt by simp
  have ea: "extends (?d0, ?w0) (da, wa)"
    using extends_loop [of ?d0 ?w0 e2 maxMinors pre kUnknown False] la by simp
  from extends_fields(1,5) [OF ea] have ia: "identity da = identity d2" and fa: "files wa = files w2"
    by (simp_all add: emit_def)
  from ia have ida: "mId da = mId d2" "childDevice da i = childDevice d2 i"
    by (simp_all add: identity_def childDevice_def)
  \<comment> \<open>the record itself\<close>
  have key_a: "files wa (BuildKeyPath e2 (StrToHex e raw)) = Some key"
    using fa store f1 path by simp
  from createPrivateVolume_key [OF norm key_a, of "childDevice da i" da] obtain evs where
    cp: "createPrivateVolume e2 (childDevice da i) partGuid (da, wa) =
       (da\<lparr>mVolumes := mVolumes da @ [?vol]\<rparr>, emit (evs @ [EvVolumeCreate ?vol]) wa)"
    by (auto simp: ida)
  have lb: "readPartitions_line e2 maxMinors line (kGpt, fa, da, wa) =
      (kGpt, True, da\<lparr>mVolumes := mVolumes da @ [?vol]\<rparr>, emit (evs @ [EvVolumeCreate ?vol]) wa)"
    using toks num ty expand_not_public [OF ty] cp
    by (simp add: readPartitions_line_def Let_def childDevice_def EqualsIgnoreCase_iff kGpt_no_nul)
  \<comment> \<open>the lines after it, and the end of the scan\<close>
  let ?db = "da\<lparr>mVolumes := mVolumes da @ [?vol]\<rparr>"
  let ?wb = "emit (evs @ [EvVolumeCreate ?vol]) wa"
  obtain tc fc dc wc where lc: "readPartitions_loop e2 maxMinors post (kGpt, True, ?db, ?wb) = (tc, fc, dc, wc)"
    by (metis prod_cases4)
  have ec: "extends (?db, ?wb) (dc, wc)"
    using extends_loop [of ?db ?wb e2 maxMinors post kGpt True] lc by simp
  from extends_scan_finish [OF ec, of e2 tc fc] obtain d3 w3 where
    fin: "scan_finish e2 (tc, fc, dc, wc) = Inr (OK, d3\<lparr>mJustPartitioned := False\<rparr>, notify e2 (EvDiskScanned (mId ?db)) w3)"
    and e3: "extends (?db, ?wb) (d3, w3)" by blast
  from extends_fields(6,7) [OF e3] obtain vs evs3 where
    v3: "mVolumes d3 = mVolumes ?db @ vs" and t3: "trace w3 = trace ?wb @ evs3" by blast
  have whole: "readPartitions_loop e2 maxMinors (pre @ line # post) (scan_start (d2, w2)) = (tc, fc, dc, wc)"
    using la ta lb lc by (simp add: readPartitions_loop_append scan_start_def)
  have r: "readPartitions e2 (d2, w2) =
      Inr (OK, d3\<lparr>mJustPartitioned := False\<rparr>, notify e2 (EvDiskScanned (mId ?db)) w3)"
    using readPartitions_scan [OF mm ge sk fe] whole fin by simp
  have "?vol \<in> set (mVolumes (d3\<lparr>mJustPartitioned := False\<rparr>))" using v3 by simp
  moreover have "EvVolumeCreate ?vol \<in> set (trace (notify e2 (EvDiskScanned (mId ?db)) w3))"
    using t3 by (simp add: notify_def emit_def)
  ultimately show ?thesis using k f1 r by blast
qed

subsection \<open>The scanner against its specification\<close>

lemma span_digits_all:
  "list_all (\<lambda>c. dv c \<noteq> None) s \<Longrightarrow> span_digits dv s = (map (\<lambda>c. the (dv c)) s, [])"
  by (induction s) auto

lemma span_digits_rest:
  "\<not> list_all (\<lambda>c. dv c \<noteq> None) s \<Longrightarrow> snd (span_digits dv s) \<noteq> []"
  by (induction s) (auto split: option.splits prod.splits)

lemma c_str_0x: "c_str (CHR ''0'' # CHR ''x'' # tok) = CHR ''0'' # CHR ''x'' # c_str tok"
  by (simp add: c_str_def)

lemma strtoll_0x:
  "strtoll 16 (CHR ''0'' # CHR ''x'' # t) =
     (case t of
        [] \<Rightarrow> Some (0, ''x'')
      | h # cs \<Rightarrow>
          if xdigit_val h = None then Some (0, CHR ''x'' # t)
          else (case span_digits xdigit_val t of
                  (vs, rest) \<Rightarrow> Some (int (digits_val 16 0 vs), rest)))"
proof (cases t)
  case Nil
  then show ?thesis by (simp add: strtoll_def isspace_c_def xdigit_val_def Let_def)
next
  case (Cons h cs)
  show ?thesis
  proof (cases "xdigit_val h")
    case None
    have x: "xdigit_val CHR ''x'' = None" "xdigit_val CHR ''0'' = Some 0"
      by (simp_all add: xdigit_val_def)
    from None Cons show ?thesis
      by (simp add: strtoll_def isspace_c_def Let_def x)
  next
    case (Some v)
    with Cons show ?thesis
      by (simp add: strtoll_def isspace_c_def Let_def split: prod.splits)
  qed
qed

lemma ParseInt_hex:
  "ParseInt (CHR ''0'' # CHR ''x'' # tok) lo hi =
     (case hex_value (c_str tok) of
        None \<Rightarrow> None
      | Some v \<Rightarrow> if int v \<le> LLONG_MAX \<and> lo \<le> int v \<and> int v \<le> hi then Some (int v) else None)"
proof -
  let ?t = "c_str tok"
  have p: "ParseInt (CHR ''0'' # CHR ''x'' # tok) lo hi =
      (case strtoll 16 (CHR ''0'' # CHR ''x'' # ?t) of
           None \<Rightarrow> None
         | Some (result, rest) \<Rightarrow>
             if result < LLONG_MIN \<or> LLONG_MAX < result then None
             else if rest \<noteq> [] then None
             else if result < lo \<or> hi < result then None
             else Some result)"
    by (simp add: ParseInt_def c_str_0x isspace_c_def Let_def)
  show ?thesis
  proof (cases ?t)
    case Nil
    then show ?thesis by (simp add: p strtoll_0x hex_value_def LLONG_MIN_def LLONG_MAX_def)
  next
    case (Cons h cs)
    show ?thesis
    proof (cases "list_all (\<lambda>c. xdigit_val c \<noteq> None) ?t")
      case True
      with Cons have h: "xdigit_val h \<noteq> None" by simp
      have sp: "span_digits xdigit_val ?t = (map (\<lambda>c. the (xdigit_val c)) ?t, [])"
        using True by (rule span_digits_all)
      have hv: "hex_value ?t = Some (digits_val 16 0 (map (\<lambda>c. the (xdigit_val c)) ?t))"
        using True Cons by (simp add: hex_value_def)
      have st: "strtoll 16 (CHR ''0'' # CHR ''x'' # ?t)
          = Some (int (digits_val 16 0 (map (\<lambda>c. the (xdigit_val c)) ?t)), [])"
        using Cons h sp by (simp add: strtoll_0x)
      show ?thesis
        unfolding p hv st by (auto simp: LLONG_MIN_def)
    next
      case False
      then have hv: "hex_value ?t = None" by (simp add: hex_value_def)
      from span_digits_rest [OF False] have r: "snd (span_digits xdigit_val ?t) \<noteq> []" .
      show ?thesis
        using Cons r unfolding p hv strtoll_0x
        by (auto split: prod.splits)
    qed
  qed
qed

lemma mbr_switch:
  "(case ParseInt (CHR ''0'' # CHR ''x'' # ty) INT_MIN INT_MAX of
      None \<Rightarrow> x
    | Some type \<Rightarrow> if type \<in> set [0x06, 0x07, 0x0b, 0x0c, 0x0e, 0x83] then y else x)
   = (if mbr_decision ty = DecPublic then y else x)"
  by (auto simp: ParseInt_hex mbr_decision_def mbr_public_types_def INT_MIN_def INT_MAX_def
      LLONG_MAX_def split: option.splits)

lemma decision_volumes_identity:
  "identity d' = identity d \<Longrightarrow> decision_volumes e store d' x = decision_volumes e store d x"
  by (cases x; cases "snd x")
    (auto simp: identity_def makePublic_def makePrivate_def childDevice_def
      split: prod.splits option.splits)

lemma scan_volumes_identity:
  "identity d' = identity d \<Longrightarrow> scan_volumes e store d' maxMinors t out = scan_volumes e store d maxMinors t out"
proof -
  assume "identity d' = identity d"
  then have "decision_volumes e store d' = decision_volumes e store d"
    by (intro ext) (rule decision_volumes_identity)
  then show ?thesis by (simp add: scan_volumes_def)
qed

lemma scan_volumes_Nil: "scan_volumes e store d maxMinors t [] = []"
  by (simp add: scan_volumes_def)

lemma scan_volumes_Cons:
  "scan_volumes e store d maxMinors t (line # out) =
     (case record_decision maxMinors t line of Some x \<Rightarrow> decision_volumes e store d x | None \<Rightarrow> [])
     @ scan_volumes e store d maxMinors (case table_of_line line of Some t' \<Rightarrow> t' | None \<Rightarrow> t) out"
  by (simp add: scan_volumes_def split: option.splits)

lemma scan_volumes_append:
  "scan_volumes e store d maxMinors t (xs @ ys) =
     scan_volumes e store d maxMinors t xs @ scan_volumes e store d maxMinors (table_after xs t) ys"
  by (induction xs arbitrary: t) (simp_all add: scan_volumes_Nil scan_volumes_Cons)

lemma createPublicVolume_volumes:
  "mVolumes (fst (createPublicVolume (childDevice d i) [] [] (d, w))) = mVolumes d @ [makePublic d i]"
  by (simp add: createPublicVolume_def makePublic_def Let_def)

lemma createPrivateVolume_volumes:
  "mVolumes (fst (createPrivateVolume e (childDevice d i) partGuid (d, w)))
     = mVolumes d @ (case makePrivate e (files w) d i partGuid of Some v \<Rightarrow> [v] | None \<Rightarrow> [])"
  by (simp add: createPrivateVolume_def makePrivate_def Let_def split: prod.splits option.splits)

lemma mbr_decision_cases: "mbr_decision ty = DecPublic \<or> mbr_decision ty = DecNone"
  by (simp add: mbr_decision_def split: option.splits)

lemma readPartitions_line_volumes:
  "mVolumes (fst (snd (snd (readPartitions_line e maxMinors line (t, f, d, w)))))
     = mVolumes d @ (case record_decision maxMinors t line of
                       Some x \<Rightarrow> decision_volumes e (files w) d x | None \<Rightarrow> [])"
proof (cases "Split line kSgdiskToken")
  case Nil
  then show ?thesis by (simp add: readPartitions_line_def record_decision_def)
next
  case (Cons tok rest)
  show ?thesis
  proof (cases "tok = ''PART''")
    case False
    with Cons show ?thesis
      by (simp add: readPartitions_line_def record_decision_def split: list.splits)
  next
    case part: True
    show ?thesis
    proof (cases rest)
      case Nil
      with Cons part show ?thesis by (simp add: readPartitions_line_def record_decision_def)
    next
      case (Cons num rest2)
      note toks = \<open>Split line kSgdiskToken = tok # rest\<close> part Cons
      show ?thesis
      proof (cases "ParseInt num 1 maxMinors")
        case None
        with toks show ?thesis by (simp add: readPartitions_line_def record_decision_def)
      next
        case (Some i)
        have cd: "makedev (major (mDevice d)) (minor (mDevice d) + word_of_int i) = childDevice d i"
          by (simp add: childDevice_def)
        show ?thesis
        proof (cases t)
          case kUnknown
          with toks Some show ?thesis by (simp add: readPartitions_line_def record_decision_def)
        next
          case kMbr
          show ?thesis
          proof (cases rest2)
            case Nil
            with toks Some kMbr show ?thesis
              by (simp add: readPartitions_line_def record_decision_def)
          next
            case (Cons ty rest3)
            with toks Some kMbr mbr_decision_cases [of ty] show ?thesis
              by (auto simp: readPartitions_line_def record_decision_def Let_def cd mbr_switch
                  createPublicVolume_volumes)
          qed
        next
          case kGpt
          show ?thesis
          proof (cases rest2)
            case Nil
            with toks Some kGpt show ?thesis
              by (simp add: readPartitions_line_def record_decision_def)
          next
            case c1: (Cons typeGuid rest3)
            show ?thesis
            proof (cases rest3)
              case Nil
              with toks Some kGpt c1 show ?thesis
                by (simp add: readPartitions_line_def record_decision_def)
            next
              case (Cons partGuid rest4)
              with toks Some kGpt c1 show ?thesis
                by (simp add: readPartitions_line_def record_decision_def Let_def cd
                    EqualsIgnoreCase_iff kGpt_no_nul gpt_decision_def
                    createPublicVolume_volumes createPrivateVolume_volumes)
            qed
          qed
        qed
      qed
    qed
  qed
qed

lemma readPartitions_line_found:
  "fst (snd (readPartitions_line e maxMinors line (t, f, d, w))) = (f \<or> is_part_line line)"
  by (simp add: readPartitions_line_def is_part_line_def Let_def split: list.splits option.splits)

lemma readPartitions_loop_volumes:
  "readPartitions_loop e maxMinors out (t, f, d, w) = (t', f', d', w') \<Longrightarrow>
     mVolumes d' = mVolumes d @ scan_volumes e (files w) d maxMinors t out
     \<and> f' = (f \<or> list_ex is_part_line out)"
proof (induction out arbitrary: t f d w)
  case Nil
  then show ?case by (simp add: scan_volumes_Nil)
next
  case (Cons line out)
  obtain t1 f1 d1 w1 where s: "readPartitions_line e maxMinors line (t, f, d, w) = (t1, f1, d1, w1)"
    by (metis prod_cases4)
  from readPartitions_line_table [of e maxMinors line t f d w] s
  have t1: "t1 = (case table_of_line line of Some t' \<Rightarrow> t' | None \<Rightarrow> t)" by simp
  from readPartitions_line_found [of e maxMinors line t f d w] s
  have f1: "f1 = (f \<or> is_part_line line)" by simp
  from readPartitions_line_volumes [of e maxMinors line t f d w] s
  have v1: "mVolumes d1 = mVolumes d @ (case record_decision maxMinors t line of
                       Some x \<Rightarrow> decision_volumes e (files w) d x | None \<Rightarrow> [])" by simp
  from extends_line [of d w e maxMinors line t f] s have ex: "extends (d, w) (d1, w1)" by simp
  from extends_fields(1,5) [OF ex] have id: "identity d1 = identity d" and fl: "files w1 = files w" .
  from Cons.prems s have "readPartitions_loop e maxMinors out (t1, f1, d1, w1) = (t', f', d', w')"
    by simp
  from Cons.IH [OF this] have "mVolumes d' = mVolumes d1 @ scan_volumes e (files w1) d1 maxMinors t1 out"
    and "f' = (f1 \<or> list_ex is_part_line out)" by simp_all
  with t1 f1 v1 fl show ?case
    by (simp add: scan_volumes_Cons scan_volumes_identity [OF id])
qed

lemma table_after_known: "t \<noteq> kUnknown \<Longrightarrow> table_after out t \<noteq> kUnknown"
proof (induction out arbitrary: t)
  case Nil
  then show ?case by simp
next
  case (Cons line out)
  have "(case table_of_line line of Some t' \<Rightarrow> t' | None \<Rightarrow> t) \<noteq> kUnknown"
    using Cons.prems
    by (auto simp: table_of_line_def split: option.splits list.splits if_splits)
  then show ?case using Cons.IH by simp
qed

lemma table_after_append: "table_after (xs @ ys) t = table_after ys (table_after xs t)"
  by (induction xs arbitrary: t) simp_all

lemma readPartitions_volumes:
  assumes "getMaxMinors e (d, w) = Inr maxMinors" and "0 \<le> maxMinors" and "\<not> mSkipChange d"
    and "ForkExecvp e (dumpCmd d) = (OK, out)"
    and "table_after out kUnknown \<noteq> kUnknown" and "list_ex is_part_line out"
  shows "\<exists>w'. readPartitions e (d, w) =
      Inr (OK, d\<lparr>mVolumes := scan_volumes e (files w) d maxMinors kUnknown out,
                 mJustPartitioned := False\<rparr>, w')"
proof -
  let ?d0 = "d\<lparr>mVolumes := []\<rparr>"
  let ?w0 = "emit (map EvVolumeDestroy (mVolumes d) @ [EvForkExecvp (dumpCmd d)]) w"
  obtain t f d2 w2 where lp: "readPartitions_loop e maxMinors out (kUnknown, False, ?d0, ?w0) = (t, f, d2, w2)"
    by (metis prod_cases4)
  from readPartitions_loop_table [of e maxMinors out kUnknown False ?d0 ?w0] lp assms(5)
  have t: "t \<noteq> kUnknown" by simp
  from readPartitions_loop_volumes [OF lp] assms(6)
  have v: "mVolumes d2 = scan_volumes e (files w) ?d0 maxMinors kUnknown out" and f: "f"
    by (simp_all add: emit_def)
  have v': "mVolumes d2 = scan_volumes e (files w) d maxMinors kUnknown out"
    using v by (simp add: scan_volumes_identity [of ?d0 d])
  have ex: "extends (?d0, ?w0) (d2, w2)"
    using extends_loop [of ?d0 ?w0 e maxMinors out kUnknown False] lp by simp
  then have d2: "d2 = ?d0\<lparr>mVolumes := mVolumes d2\<rparr>" by (simp add: extends_def)
  have "readPartitions e (d, w) = scan_finish e (t, f, d2, w2)"
    using readPartitions_scan [OF assms(1-4)] lp by (simp add: scan_start_def)
  also have "\<dots> = Inr (OK, d2\<lparr>mJustPartitioned := False\<rparr>, notify e (EvDiskScanned (mId d2)) w2)"
    using t f by (simp add: scan_finish_def)
  finally have "readPartitions e (d, w) =
      Inr (OK, d2\<lparr>mJustPartitioned := False\<rparr>, notify e (EvDiskScanned (mId d2)) w2)" .
  moreover have "d2\<lparr>mJustPartitioned := False\<rparr>
      = d\<lparr>mVolumes := scan_volumes e (files w) d maxMinors kUnknown out, mJustPartitioned := False\<rparr>"
    by (subst d2) (simp add: v')
  ultimately show ?thesis by simp
qed

lemma part_line_no_table:
  "Split line kSgdiskToken = ''PART'' # rest \<Longrightarrow> table_of_line line = None \<and> is_part_line line"
  by (simp add: table_of_line_def is_part_line_def split: list.splits)

text \<open>
  Claim C1.  In a scan that gets past its checks, take a \<^verbatim>\<open>PART\<close> record of the tool's
  output (an index that parses within 1..maxMinors, a type GUID and a partition GUID)
  that comes after a GPT table was recorded.  The disk's volumes after the scan are those
  of the records before it, then this record's, then those of the records after it, and
  this record's are: one public volume on the child device when its type GUID equals,
  up to the case of letters, the basic-data or the Linux-filesystem GUID; what the
  private factory makes for the child device and the record's partition GUID when it
  equals the Android-expand GUID; none for any other type GUID.
\<close>

theorem readPartitions_gpt_record:
  assumes "getMaxMinors e (d, w) = Inr maxMinors" and "0 \<le> maxMinors" and "\<not> mSkipChange d"
    and "ForkExecvp e (dumpCmd d) = (OK, pre @ line # post)"
    and "table_after pre kUnknown = kGpt"
    and "Split line kSgdiskToken = ''PART'' # num # typeGuid # partGuid # more_tokens"
    and "ParseInt num 1 maxMinors = Some i"
  shows "\<exists>w'. readPartitions e (d, w) =
      Inr (OK,
           d\<lparr>mVolumes :=
                scan_volumes e (files w) d maxMinors kUnknown pre
                @ (if same_ignoring_case typeGuid kGptBasicData
                      \<or> same_ignoring_case typeGuid kGptLinuxFilesystem
                   then [(PublicVolume (childDevice d i) [] [])\<lparr>vDiskId := mId d\<rparr>]
                   else if same_ignoring_case typeGuid kGptAndroidExpand
                   then (case makePrivate e (files w) d i partGuid of Some v \<Rightarrow> [v] | None \<Rightarrow> [])
                   else [])
                @ scan_volumes e (files w) d maxMinors kGpt post,
             mJustPartitioned := False\<rparr>,
           w')"
proof -
  from part_line_no_table [OF assms(6)] have nt: "table_of_line line = None" and pl: "is_part_line line"
    by simp_all
  have known: "table_after (pre @ line # post) kUnknown \<noteq> kUnknown"
    using assms(5) nt by (simp add: table_after_append table_after_known)
  have found: "list_ex is_part_line (pre @ line # post)" using pl by simp
  have rd: "record_decision maxMinors kGpt line = Some (i, gpt_decision typeGuid partGuid)"
    using assms(6,7) by (simp add: record_decision_def)
  have sv: "scan_volumes e (files w) d maxMinors kUnknown (pre @ line # post) =
      scan_volumes e (files w) d maxMinors kUnknown pre
      @ decision_volumes e (files w) d (i, gpt_decision typeGuid partGuid)
      @ scan_volumes e (files w) d maxMinors kGpt post"
    using assms(5) nt rd by (simp add: scan_volumes_append scan_volumes_Cons)
  have dv: "decision_volumes e (files w) d (i, gpt_decision typeGuid partGuid) =
      (if same_ignoring_case typeGuid kGptBasicData \<or> same_ignoring_case typeGuid kGptLinuxFilesystem
       then [(PublicVolume (childDevice d i) [] [])\<lparr>vDiskId := mId d\<rparr>]
       else if same_ignoring_case typeGuid kGptAndroidExpand
       then (case makePrivate e (files w) d i partGuid of Some v \<Rightarrow> [v] | None \<Rightarrow> [])
       else [])"
    by (simp add: gpt_decision_def makePublic_def)
  from readPartitions_volumes [OF assms(1-4) known found] show ?thesis
    unfolding sv dv .
qed

text \<open>
  Claim C2.  In a scan that gets past its checks, take a \<^verbatim>\<open>PART\<close> record of the tool's
  output (an index that parses within 1..maxMinors and a type token) that comes after an
  MBR table was recorded.  The disk's volumes after the scan are those of the records
  before it, then this record's, then those of the records after it, and this record's
  are: one public volume on the child device when the token is a hex number, of any
  length and either case, with value 0x06, 0x07, 0x0B, 0x0C, 0x0E or 0x83; none for
  any other token.
\<close>

theorem readPartitions_mbr_record:
  assumes "getMaxMinors e (d, w) = Inr maxMinors" and "0 \<le> maxMinors" and "\<not> mSkipChange d"
    and "ForkExecvp e (dumpCmd d) = (OK, pre @ line # post)"
    and "table_after pre kUnknown = kMbr"
    and "Split line kSgdiskToken = ''PART'' # num # ty # more_tokens"
    and "ParseInt num 1 maxMinors = Some i"
  shows "\<exists>w'. readPartitions e (d, w) =
      Inr (OK,
           d\<lparr>mVolumes :=
                scan_volumes e (files w) d maxMinors kUnknown pre
                @ (if hex_value (c_str ty) \<in> set (map Some mbr_public_types)
                   then [(PublicVolume (childDevice d i) [] [])\<lparr>vDiskId := mId d\<rparr>]
                   else [])
                @ scan_volumes e (files w) d maxMinors kMbr post,
             mJustPartitioned := False\<rparr>,
           w')"
proof -
  from part_line_no_table [OF assms(6)] have nt: "table_of_line line = None" and pl: "is_part_line line"
    by simp_all
  have known: "table_after (pre @ line # post) kUnknown \<noteq> kUnknown"
    using assms(5) nt by (simp add: table_after_append table_after_known)
  have found: "list_ex is_part_line (pre @ line # post)" using pl by simp
  have rd: "record_decision maxMinors kMbr line = Some (i, mbr_decision ty)"
    using assms(6,7) by (simp add: record_decision_def)
  have sv: "scan_volumes e (files w) d maxMinors kUnknown (pre @ line # post) =
      scan_volumes e (files w) d maxMinors kUnknown pre
      @ decision_volumes e (files w) d (i, mbr_decision ty)
      @ scan_volumes e (files w) d maxMinors kMbr post"
    using assms(5) nt rd by (simp add: scan_volumes_append scan_volumes_Cons)
  have dv: "decision_volumes e (files w) d (i, mbr_decision ty) =
      (if hex_value (c_str ty) \<in> set (map Some mbr_public_types)
       then [(PublicVolume (childDevice d i) [] [])\<lparr>vDiskId := mId d\<rparr>]
       else [])"
    by (auto simp: mbr_decision_def makePublic_def split: option.splits)
  from readPartitions_volumes [OF assms(1-4) known found] show ?thesis
    unfolding sv dv .
qed

subsection \<open>Concrete runs\<close>

lemmas const_defs = kSgdiskToken_def kSgdiskPath_def kGptBasicData_def kGptLinuxFilesystem_def
  kGptAndroidExpand_def kGptAndroidMeta_def OK_def EIO_def EINVAL_def ENOTSUP_def

lemmas parse_defs = ParseInt_def strtoll_def c_str_def isspace_c_def xdigit_val_def digit_val_def
  INT_MIN_def INT_MAX_def LLONG_MIN_def LLONG_MAX_def

lemma sample_getMaxMinors:
  "getMaxMinors (sample_env tool probe) (sample_disk\<lparr>mVolumes := vs, mJustPartitioned := jp, mSkipChange := sc\<rparr>, w) = Inr 15"
  by (simp add: getMaxMinors_def sample_disk_eq kMajorBlockLoop_def kMajorBlockScsi_def)

lemma sample_dumpCmd:
  "dumpCmd (sample_disk\<lparr>mVolumes := vs, mJustPartitioned := jp, mSkipChange := sc\<rparr>)
     = [kSgdiskPath, ''--android-dump'', ''/dev/block/vold/disk:8,0'']"
  by (simp add: dumpCmd_def sample_disk_eq)

text \<open>
  A whole scan of the sample disk: an MBR table with a Linux, an NTFS and a swap
  partition gives public volumes on (8,1) and (8,2), in that order.
\<close>

lemma readPartitions_mbr_example:
  "readPartitions (sample_env (sample_tool [''DISK mbr'', ''PART 1 83'', ''PART 2 07'', ''PART 3 82'']) True)
      (sample_disk, sample_world)
   = Inr (OK,
          sample_disk\<lparr>mVolumes := [(PublicVolume (makedev 8 1) [] [])\<lparr>vDiskId := ''disk:8,0''\<rparr>,
                                   (PublicVolume (makedev 8 2) [] [])\<lparr>vDiskId := ''disk:8,0''\<rparr>]\<rparr>,
          \<lparr>files = Map.empty,
           trace = [EvForkExecvp [''/system/bin/sgdisk'', ''--android-dump'', ''/dev/block/vold/disk:8,0''],
                    EvVolumeCreate ((PublicVolume (makedev 8 1) [] [])\<lparr>vDiskId := ''disk:8,0''\<rparr>),
                    EvVolumeCreate ((PublicVolume (makedev 8 2) [] [])\<lparr>vDiskId := ''disk:8,0''\<rparr>),
                    EvDiskScanned ''disk:8,0'']\<rparr>)"
proof -
  let ?e = "sample_env (sample_tool [''DISK mbr'', ''PART 1 83'', ''PART 2 07'', ''PART 3 82'']) True"
  have d: "sample_disk = sample_disk\<lparr>mVolumes := [], mJustPartitioned := False, mSkipChange := False\<rparr>"
    by (simp add: sample_disk_eq)
  have mm: "getMaxMinors ?e (sample_disk, sample_world) = Inr 15"
    by (subst d, rule sample_getMaxMinors)
  have ge: "(0::int) \<le> 15" by simp
  have sk: "\<not> mSkipChange sample_disk" by (simp add: sample_disk_eq)
  have fe: "ForkExecvp ?e (dumpCmd sample_disk) = (OK, [''DISK mbr'', ''PART 1 83'', ''PART 2 07'', ''PART 3 82''])"
    by (simp add: sample_env_simps dumpCmd_def sample_disk_eq sample_tool_def)
  show ?thesis
    unfolding readPartitions_scan [OF mm ge sk fe]
    by (simp add: scan_start_def scan_finish_def readPartitions_line_def Let_def parse_defs
        kSgdiskToken_def sample_env_simps createPublicVolume_def emit_def notify_def
        sample_disk_eq sample_world_def dumpCmd_def kSgdiskPath_def makedev_def)
qed

text \<open>A just-partitioned disk and a dump tool that fails.\<close>

theorem readPartitions_fires_scanned_witness:
  "getMaxMinors (sample_env failing_tool True)
       (sample_disk\<lparr>mVolumes := [], mJustPartitioned := True, mSkipChange := False\<rparr>, sample_world) = Inr 15
   \<and> readPartitions (sample_env failing_tool True)
       (sample_disk\<lparr>mVolumes := [], mJustPartitioned := True, mSkipChange := False\<rparr>, sample_world)
     = Inr (- EIO, sample_disk,
            \<lparr>files = Map.empty,
             trace = [EvForkExecvp [''/system/bin/sgdisk'', ''--android-dump'', ''/dev/block/vold/disk:8,0''],
                      EvDiskScanned ''disk:8,0'']\<rparr>)"
proof -
  let ?e = "sample_env failing_tool True"
  let ?d = "sample_disk\<lparr>mVolumes := [], mJustPartitioned := True, mSkipChange := False\<rparr>"
  have mm: "getMaxMinors ?e (?d, sample_world) = Inr 15" by (rule sample_getMaxMinors)
  have sk: "\<not> mSkipChange ?d" by simp
  have ge: "(0::int) \<le> 15" by simp
  have r: "readPartitions ?e (?d, sample_world)
     = Inr (- EIO, sample_disk,
            \<lparr>files = Map.empty,
             trace = [EvForkExecvp [''/system/bin/sgdisk'', ''--android-dump'', ''/dev/block/vold/disk:8,0''],
                      EvDiskScanned ''disk:8,0'']\<rparr>)"
  proof -
    have nf: "fst (ForkExecvp ?e (dumpCmd ?d)) \<noteq> OK"
      by (simp add: sample_env_simps failing_tool_def const_defs)
    show ?thesis
      unfolding readPartitions_tool_failed [OF mm ge sk nf]
      by (simp add: sample_env_simps failing_tool_def const_defs dumpCmd_def notify_def
          emit_def sample_world_def sample_disk_eq)
  qed
  from readPartitions_fires_scanned [OF mm ge sk] r mm show ?thesis
    by blast
qed

text \<open>A disk with the flag set and one volume: the call only clears the flag.\<close>

theorem readPartitions_skipChange_witness:
  "getMaxMinors (sample_env (sample_tool []) True)
       (sample_disk\<lparr>mVolumes := [PublicVolume (makedev 8 1) [] []], mJustPartitioned := False, mSkipChange := True\<rparr>,
        sample_world) = Inr 15
   \<and> readPartitions (sample_env (sample_tool []) True)
       (sample_disk\<lparr>mVolumes := [PublicVolume (makedev 8 1) [] []], mJustPartitioned := False, mSkipChange := True\<rparr>,
        sample_world)
     = Inr (OK, sample_disk\<lparr>mVolumes := [PublicVolume (makedev 8 1) [] []]\<rparr>, sample_world)"
proof -
  let ?e = "sample_env (sample_tool []) True"
  let ?d = "sample_disk\<lparr>mVolumes := [PublicVolume (makedev 8 1) [] []], mJustPartitioned := False, mSkipChange := True\<rparr>"
  have mm: "getMaxMinors ?e (?d, sample_world) = Inr 15" by (rule sample_getMaxMinors)
  have ge: "(0::int) \<le> 15" by simp
  have sk: "mSkipChange ?d" by simp
  from readPartitions_skipChange [OF mm ge sk] mm show ?thesis
    by (simp add: sample_disk_eq)
qed

text \<open>
  A tool that prints nothing and a probe that succeeds: one public volume on (8,0).  A
  table kind without partitions and a probe that fails: no volume.
\<close>

theorem readPartitions_whole_disk_witness:
  "readPartitions (sample_env (sample_tool []) True) (sample_disk, sample_world)
     = Inr (OK, sample_disk\<lparr>mVolumes := [(PublicVolume (makedev 8 0) [] [])\<lparr>vDiskId := ''disk:8,0''\<rparr>]\<rparr>,
            \<lparr>files = Map.empty,
             trace = [EvForkExecvp [''/system/bin/sgdisk'', ''--android-dump'', ''/dev/block/vold/disk:8,0''],
                      EvReadMetadataUntrusted ''/dev/block/vold/disk:8,0'',
                      EvVolumeCreate ((PublicVolume (makedev 8 0) [] [])\<lparr>vDiskId := ''disk:8,0''\<rparr>),
                      EvDiskScanned ''disk:8,0'']\<rparr>)
   \<and> mVolumes (fst (snd (projr (readPartitions (sample_env (sample_tool [''DISK mbr'']) False)
                                  (sample_disk, sample_world))))) = []"
proof -
  let ?e = "sample_env (sample_tool []) True"
  let ?e2 = "sample_env (sample_tool [''DISK mbr'']) False"
  have d: "sample_disk = sample_disk\<lparr>mVolumes := [], mJustPartitioned := False, mSkipChange := False\<rparr>"
    by (simp add: sample_disk_eq)
  have mm: "getMaxMinors ?e (sample_disk, sample_world) = Inr 15"
    and mm2: "getMaxMinors ?e2 (sample_disk, sample_world) = Inr 15"
    by (subst d, rule sample_getMaxMinors)+
  have ge: "(0::int) \<le> 15" by simp
  have sk: "\<not> mSkipChange sample_disk" by (simp add: sample_disk_eq)
  have fe: "ForkExecvp ?e (dumpCmd sample_disk) = (OK, [])"
    and fe2: "ForkExecvp ?e2 (dumpCmd sample_disk) = (OK, [''DISK mbr''])"
    by (simp_all add: sample_env_simps dumpCmd_def sample_disk_eq sample_tool_def)
  have h: "list_all (\<lambda>l. table_of_line l = None) [] \<or> list_all (\<lambda>l. \<not> is_part_line l) []"
    by simp
  have h2: "list_all (\<lambda>l. table_of_line l = None) [''DISK mbr''] \<or> list_all (\<lambda>l. \<not> is_part_line l) [''DISK mbr'']"
    by (simp add: is_part_line_def kSgdiskToken_def)
  have r: "readPartitions ?e (sample_disk, sample_world)
     = Inr (OK, sample_disk\<lparr>mVolumes := [(PublicVolume (makedev 8 0) [] [])\<lparr>vDiskId := ''disk:8,0''\<rparr>]\<rparr>,
            \<lparr>files = Map.empty,
             trace = [EvForkExecvp [''/system/bin/sgdisk'', ''--android-dump'', ''/dev/block/vold/disk:8,0''],
                      EvReadMetadataUntrusted ''/dev/block/vold/disk:8,0'',
                      EvVolumeCreate ((PublicVolume (makedev 8 0) [] [])\<lparr>vDiskId := ''disk:8,0''\<rparr>),
                      EvDiskScanned ''disk:8,0'']\<rparr>)"
    unfolding readPartitions_scan [OF mm ge sk fe]
    by (simp add: scan_start_def scan_finish_def Let_def sample_env_simps createPublicVolume_def
        emit_def notify_def sample_disk_eq sample_world_def dumpCmd_def kSgdiskPath_def makedev_def)
  from readPartitions_whole_disk [OF mm2 ge sk fe2 h2] r show ?thesis
    by (auto simp: sample_env_simps const_defs)
qed

text \<open>The flag after \<^verbatim>\<open>partitionPublic\<close> on an MBR disk, a GPT disk, no table, a failed dump.\<close>

lemma partitionPublic_skipChange_runs:
  "mSkipChange (fst (snd (projr (partitionPublic (sample_env (sample_tool [''DISK mbr'', ''PART 1 0c'']) True)
                                   (sample_disk, sample_world)))))
   \<and> \<not> mSkipChange (fst (snd (projr (partitionPublic (sample_env (sample_tool [''DISK gpt'']) True)
                                   (sample_disk, sample_world)))))
   \<and> \<not> mSkipChange (fst (snd (projr (partitionPublic (sample_env (sample_tool []) True)
                                   (sample_disk, sample_world)))))
   \<and> \<not> mSkipChange (fst (snd (projr (partitionPublic (sample_env failing_tool True)
                                   (sample_disk, sample_world)))))"
proof -
  have sk: "\<not> mSkipChange sample_disk" by (simp add: sample_disk_eq)
  have fe: "ForkExecvp (sample_env (sample_tool ls) True) (dumpCmd sample_disk) = (OK, ls)" for ls
    by (simp add: sample_env_simps dumpCmd_def sample_disk_eq sample_tool_def)
  have ff: "ForkExecvp (sample_env failing_tool True) (dumpCmd sample_disk) = (- EIO, [])"
    by (simp add: sample_env_simps failing_tool_def)
  have k: "prescan_kind ''DISK mbr'' = Some kMbr" "prescan_kind ''DISK gpt'' = Some kGpt"
    "prescan_kind ''PART 1 0c'' = None"
    by (simp_all add: prescan_kind_def strtok_tokens_def c_str_def kSgdiskToken_def)
  have h1: "OK \<noteq> OK \<or> list_all (\<lambda>l. \<not> bare_disk_line l) (takeWhile (\<lambda>l. prescan_kind l = None) [''DISK mbr'', ''PART 1 0c''])"
    and h2: "OK \<noteq> OK \<or> list_all (\<lambda>l. \<not> bare_disk_line l) (takeWhile (\<lambda>l. prescan_kind l = None) [''DISK gpt''])"
    and h3: "OK \<noteq> OK \<or> list_all (\<lambda>l. \<not> bare_disk_line l) (takeWhile (\<lambda>l. prescan_kind l = None) [])"
    and h4: "- EIO \<noteq> OK \<or> list_all (\<lambda>l. \<not> bare_disk_line l) (takeWhile (\<lambda>l. prescan_kind l = None) [])"
    by (simp_all add: k)
  from partitionPublic_skipChange [OF sk fe h1, of sample_world]
    partitionPublic_skipChange [OF sk fe h2, of sample_world]
    partitionPublic_skipChange [OF sk fe h3, of sample_world]
    partitionPublic_skipChange [OF sk ff h4, of sample_world]
  show ?thesis
    by (auto simp: prescan_reports_def List.map_filter_simps k const_defs)
qed

text \<open>The sample SCSI disk with an MBR table goes through create, destroy, create, destroy.\<close>

theorem create_destroy_alternate_witness:
  "\<not> mCreated sample_disk
   \<and> \<not> isStub (sample_env (sample_tool [''DISK mbr'', ''PART 1 0c'']) True) sample_disk
   \<and> getMaxMinors (sample_env (sample_tool [''DISK mbr'', ''PART 1 0c'']) True) (sample_disk, sample_world) = Inr 15
   \<and> destroy (sample_env (sample_tool [''DISK mbr'', ''PART 1 0c'']) True) (sample_disk, sample_world) = Inl CheckFailed
   \<and> (\<exists>d1 w1 d2 w2 d3 w3 d4 w4.
            create (sample_env (sample_tool [''DISK mbr'', ''PART 1 0c'']) True) (sample_disk, sample_world) = Inr (OK, d1, w1) \<and> mCreated d1
          \<and> destroy (sample_env (sample_tool [''DISK mbr'', ''PART 1 0c'']) True) (d1, w1) = Inr (OK, d2, w2) \<and> mVolumes d2 = [] \<and> \<not> mCreated d2
          \<and> create (sample_env (sample_tool [''DISK mbr'', ''PART 1 0c'']) True) (d2, w2) = Inr (OK, d3, w3) \<and> mCreated d3
          \<and> destroy (sample_env (sample_tool [''DISK mbr'', ''PART 1 0c'']) True) (d3, w3) = Inr (OK, d4, w4) \<and> mVolumes d4 = [] \<and> \<not> mCreated d4)"
proof -
  let ?e = "sample_env (sample_tool [''DISK mbr'', ''PART 1 0c'']) True"
  have d: "sample_disk = sample_disk\<lparr>mVolumes := [], mJustPartitioned := False, mSkipChange := False\<rparr>"
    by (simp add: sample_disk_eq)
  have mm: "getMaxMinors ?e (sample_disk, sample_world) = Inr 15"
    by (subst d, rule sample_getMaxMinors)
  have nc: "\<not> mCreated sample_disk" by (simp add: sample_disk_eq)
  have ns: "\<not> isStub ?e sample_disk" by (simp add: isStub_def sample_env_simps sample_disk_eq)
  from create_destroy_alternate [of sample_disk ?e sample_world 15] mm nc ns show ?thesis
    by blast
qed

text \<open>
  A stub disk holding the one volume \<^verbatim>\<open>initializePartition\<close> gave it: \<^verbatim>\<open>create()\<close>
  and \<^verbatim>\<open>destroy()\<close> return \<^verbatim>\<open>OK\<close>, and the second \<^verbatim>\<open>create()\<close> fails the
  \<^verbatim>\<open>CHECK\<close> of \<^verbatim>\<open>createStubVolume\<close>, the volume being gone.
\<close>

theorem create_destroy_create_stub_counterexample:
  "\<not> mCreated sample_stub_disk
   \<and> andThen (create (sample_env (sample_tool []) True) (sample_stub_disk, sample_world))
              (destroy (sample_env (sample_tool []) True))
       = Inr (OK, sample_stub_disk\<lparr>mVolumes := []\<rparr>,
              \<lparr>files = Map.empty,
               trace = [EvDiskCreated ''disk:8,16'' 64,
                        EvDiskMetadataChanged ''disk:8,16'' (- 1) [] ''/sys/devices/virtual/block/stub'',
                        EvDiskScanned ''disk:8,16'',
                        EvVolumeCreate (sample_stub_volume\<lparr>vDiskId := ''disk:8,16''\<rparr>),
                        EvVolumeDestroy (sample_stub_volume\<lparr>vDiskId := ''disk:8,16''\<rparr>),
                        EvDiskDestroyed ''disk:8,16'']\<rparr>)
   \<and> andThen (andThen (create (sample_env (sample_tool []) True) (sample_stub_disk, sample_world))
                       (destroy (sample_env (sample_tool []) True)))
              (create (sample_env (sample_tool []) True))
       = Inl CheckFailed"
proof -
  let ?e = "sample_env (sample_tool []) True"
  have sd: "sample_stub_disk =
     \<lparr>mId = ''disk:8,16'', mEventPath = ''devices/virtual/block/stub'',
      mSysPath = ''/sys/devices/virtual/block/stub'', mDevPath = ''/dev/block/vold/disk:8,16'',
      mDevice = \<lparr>major = 8, minor = 16\<rparr>, mSize = - 1, mLabel = [], mNickname = ''stub'',
      mVolumes = [sample_stub_volume], mFlags = 64, mCreated = False, mJustPartitioned = False,
      mSkipChange = False\<rparr>"
    by (simp add: sample_stub_disk_def Disk_new_def makedev_def Let_def c_str_def)
  have st: "isStubFlags ?e 64" by (simp add: sample_env_simps)
  have c1: "create ?e (sample_stub_disk, sample_world) =
      Inr (OK, sample_stub_disk\<lparr>mVolumes := [sample_stub_volume\<lparr>vDiskId := ''disk:8,16''\<rparr>], mCreated := True\<rparr>,
           \<lparr>files = Map.empty,
            trace = [EvDiskCreated ''disk:8,16'' 64,
                     EvDiskMetadataChanged ''disk:8,16'' (- 1) [] ''/sys/devices/virtual/block/stub'',
                     EvDiskScanned ''disk:8,16'',
                     EvVolumeCreate (sample_stub_volume\<lparr>vDiskId := ''disk:8,16''\<rparr>)]\<rparr>)"
    by (simp add: sd create_def isStub_def st createStubVolume_def notify_def sample_env_simps
        emit_def sample_world_def Let_def)
  have d2: "andThen (create ?e (sample_stub_disk, sample_world)) (destroy ?e)
       = Inr (OK, sample_stub_disk\<lparr>mVolumes := []\<rparr>,
              \<lparr>files = Map.empty,
               trace = [EvDiskCreated ''disk:8,16'' 64,
                        EvDiskMetadataChanged ''disk:8,16'' (- 1) [] ''/sys/devices/virtual/block/stub'',
                        EvDiskScanned ''disk:8,16'',
                        EvVolumeCreate (sample_stub_volume\<lparr>vDiskId := ''disk:8,16''\<rparr>),
                        EvVolumeDestroy (sample_stub_volume\<lparr>vDiskId := ''disk:8,16''\<rparr>),
                        EvDiskDestroyed ''disk:8,16'']\<rparr>)"
    unfolding c1
    by (simp add: andThen_def destroy_def destroyAllVolumes_def notify_def sample_env_simps
        emit_def Let_def sd)
  have c3: "andThen (andThen (create ?e (sample_stub_disk, sample_world)) (destroy ?e)) (create ?e)
       = Inl CheckFailed"
    unfolding d2
    by (simp add: andThen_def create_def isStub_def st createStubVolume_def sd Let_def)
  have "\<not> mCreated sample_stub_disk" by (simp add: sd)
  with d2 c3 show ?thesis by blast
qed

text \<open>\<^verbatim>\<open>partitionPrivate\<close> on the sample disk, then a scan that finds the partition.\<close>

theorem partition_scan_key_roundtrip_witness:
  "partitionPrivate (sample_env (sample_tool []) True) (sample_disk, sample_world)
     = (OK, sample_disk\<lparr>mVolumes := [], mJustPartitioned := True, mSkipChange := False\<rparr>,
        snd (snd (partitionPrivate (sample_env (sample_tool []) True) (sample_disk, sample_world))))
   \<and> (\<exists>st d3 w3.
        readPartitions
          (sample_env (sample_tool
             [''DISK gpt'',
              ''PART 1 19A710A2-B3CA-11E4-B026-10604B889DCF 11111111-2222-3333-4444-555555555555'',
              ''PART 2 193D1EA4-B3CA-11E4-B075-10604B889DCF 766F6C64-2D64-6973-6B2D-757569642D31'']) True)
          (sample_disk\<lparr>mVolumes := [], mJustPartitioned := True, mSkipChange := False\<rparr>,
           snd (snd (partitionPrivate (sample_env (sample_tool []) True) (sample_disk, sample_world))))
        = Inr (st, d3, w3)
      \<and> (PrivateVolume (makedev 8 2) ''0123456789abcdef'')
            \<lparr>vDiskId := ''disk:8,0'', vPartGuid := ''766F6C64-2D64-6973-6B2D-757569642D31''\<rparr>
          \<in> set (mVolumes d3))"
proof -
  let ?e = "sample_env (sample_tool []) True"
  let ?pre = "[''DISK gpt'',
              ''PART 1 19A710A2-B3CA-11E4-B026-10604B889DCF 11111111-2222-3333-4444-555555555555'']"
  let ?line = "''PART 2 193D1EA4-B3CA-11E4-B075-10604B889DCF 766F6C64-2D64-6973-6B2D-757569642D31''"
  let ?e2 = "sample_env (sample_tool (?pre @ ?line # [])) True"
  let ?d1 = "sample_disk\<lparr>mVolumes := [], mJustPartitioned := True, mSkipChange := False\<rparr>"
  let ?w1 = "snd (snd (partitionPrivate ?e (sample_disk, sample_world)))"
  have pm: "partitionMixed ?e 0 (sample_disk, sample_world) = (OK, ?d1, ?w1)
        \<or> partitionPrivate ?e (sample_disk, sample_world) = (OK, ?d1, ?w1)"
    by (simp add: partitionPrivate_def partitionMixed_def destroyAllVolumes_def Let_def
        sample_env_simps sample_tool_def mixedCmd_def sample_disk_eq OK_def)
  have uuid: "GenerateRandomUuid ?e = (OK, ''vold-disk-uuid-1'')" by (simp add: sample_env_simps)
  have path: "BuildKeyPath ?e2 = BuildKeyPath ?e" by (simp add: sample_env_simps)
  have norm: "NormalizeHex ?e2 ''766F6C64-2D64-6973-6B2D-757569642D31'' = (OK, StrToHex ?e ''vold-disk-uuid-1'')"
    by (simp add: sample_env_simps StrToHex_sample NormalizeHex_model_def xdigit_val_def tolower_c_def)
  have mm: "getMaxMinors ?e2 (?d1, ?w1) = Inr 15" by (rule sample_getMaxMinors)
  have ge: "(0::int) \<le> 15" by simp
  have sk: "\<not> mSkipChange ?d1" by simp
  have fe: "ForkExecvp ?e2 (dumpCmd ?d1) = (OK, ?pre @ ?line # [])"
    by (simp add: sample_env_simps sample_dumpCmd sample_tool_def)
  have gpt: "table_after ?pre kUnknown = kGpt"
    by (simp add: table_of_line_def kSgdiskToken_def)
  have toks: "Split ?line kSgdiskToken = ''PART'' # ''2'' # ''193D1EA4-B3CA-11E4-B075-10604B889DCF''
      # ''766F6C64-2D64-6973-6B2D-757569642D31'' # []"
    by (simp add: kSgdiskToken_def)
  have num: "ParseInt ''2'' 1 15 = Some 2" by (simp add: parse_defs)
  have ty: "same_ignoring_case ''193D1EA4-B3CA-11E4-B075-10604B889DCF'' kGptAndroidExpand"
    by (simp add: same_ignoring_case_def kGptAndroidExpand_def)
  have cd: "childDevice ?d1 2 = makedev 8 2" by (simp add: childDevice_def sample_disk_eq makedev_def)
  have id: "mId ?d1 = ''disk:8,0''" by (simp add: sample_disk_eq)
  from partition_scan_key_roundtrip [OF pm uuid refl path norm mm ge sk fe gpt toks num ty]
  obtain key st d3 w3 where "generate_volume_key ?e = Some key"
    and "readPartitions ?e2 (?d1, ?w1) = Inr (st, d3, w3)"
    and "(PrivateVolume (childDevice ?d1 2) key)\<lparr>vDiskId := mId ?d1, vPartGuid := ''766F6C64-2D64-6973-6B2D-757569642D31''\<rparr>
           \<in> set (mVolumes d3)" by blast
  then have "\<exists>st d3 w3. readPartitions ?e2 (?d1, ?w1) = Inr (st, d3, w3)
      \<and> (PrivateVolume (makedev 8 2) ''0123456789abcdef'')
            \<lparr>vDiskId := ''disk:8,0'', vPartGuid := ''766F6C64-2D64-6973-6B2D-757569642D31''\<rparr>
          \<in> set (mVolumes d3)"
    by (auto simp: sample_env_simps cd id)
  moreover have "partitionPrivate ?e (sample_disk, sample_world) = (OK, ?d1, ?w1)"
    by (simp add: partitionPrivate_def partitionMixed_def destroyAllVolumes_def Let_def
        sample_env_simps sample_tool_def mixedCmd_def sample_disk_eq OK_def)
  ultimately show ?thesis by simp
qed

lemma sample_disk_flags:
  "sample_disk = sample_disk\<lparr>mVolumes := [], mJustPartitioned := False, mSkipChange := False\<rparr>"
  by (simp add: sample_disk_eq)

lemma sample_disk_unformatted:
  "sample_disk\<lparr>mVolumes := vs, mJustPartitioned := False\<rparr> = sample_disk\<lparr>mVolumes := vs\<rparr>"
  by (simp add: sample_disk_eq)

lemma sample_child: "childDevice sample_disk i = makedev 8 (word_of_int i)"
  by (simp add: childDevice_def sample_disk_eq makedev_def)

text \<open>A GPT disk with a basic-data, an Android-expand and an Android-meta partition, the key in the store.\<close>

theorem readPartitions_gpt_record_witness:
  "\<exists>w'. readPartitions
      (sample_env (sample_tool
         [''DISK gpt'',
          ''PART 1 ebd0a0a2-b9e5-4433-87c0-68b6b72699c7 11111111-2222-3333-4444-555555555555'',
          ''PART 2 193d1ea4-B3CA-11E4-B075-10604B889DCF 766F6C64-2D64-6973-6B2D-757569642D31'',
          ''PART 3 19A710A2-B3CA-11E4-B026-10604B889DCF 11111111-2222-3333-4444-555555555555'']) True)
      (sample_disk,
       \<lparr>files = [''/data/misc/vold/expand_766f6c642d6469736b2d757569642d31.key'' \<mapsto> ''0123456789abcdef''],
        trace = []\<rparr>)
    = Inr (OK,
           sample_disk\<lparr>mVolumes :=
             [(PublicVolume (makedev 8 1) [] [])\<lparr>vDiskId := ''disk:8,0''\<rparr>,
              (PrivateVolume (makedev 8 2) ''0123456789abcdef'')
                \<lparr>vDiskId := ''disk:8,0'', vPartGuid := ''766F6C64-2D64-6973-6B2D-757569642D31''\<rparr>]\<rparr>,
           w')"
proof -
  let ?l1 = "''PART 1 ebd0a0a2-b9e5-4433-87c0-68b6b72699c7 11111111-2222-3333-4444-555555555555''"
  let ?l2 = "''PART 2 193d1ea4-B3CA-11E4-B075-10604B889DCF 766F6C64-2D64-6973-6B2D-757569642D31''"
  let ?l3 = "''PART 3 19A710A2-B3CA-11E4-B026-10604B889DCF 11111111-2222-3333-4444-555555555555''"
  let ?e = "sample_env (sample_tool [''DISK gpt'', ?l1, ?l2, ?l3]) True"
  let ?store = "[''/data/misc/vold/expand_766f6c642d6469736b2d757569642d31.key'' \<mapsto> ''0123456789abcdef'']"
  let ?w = "\<lparr>files = ?store, trace = []\<rparr>"
  have mm: "getMaxMinors ?e (sample_disk, ?w) = Inr 15"
    by (subst sample_disk_flags, rule sample_getMaxMinors)
  have ge: "(0::int) \<le> 15" by simp
  have sk: "\<not> mSkipChange sample_disk" by (simp add: sample_disk_eq)
  have fe1: "ForkExecvp ?e (dumpCmd sample_disk) = (OK, [''DISK gpt''] @ ?l1 # [?l2, ?l3])"
    and fe2: "ForkExecvp ?e (dumpCmd sample_disk) = (OK, [''DISK gpt'', ?l1] @ ?l2 # [?l3])"
    and fe3: "ForkExecvp ?e (dumpCmd sample_disk) = (OK, [''DISK gpt'', ?l1, ?l2] @ ?l3 # [])"
    by (simp_all add: sample_env_simps dumpCmd_def sample_disk_eq sample_tool_def)
  have s1: "Split ?l1 kSgdiskToken = ''PART'' # ''1'' # ''ebd0a0a2-b9e5-4433-87c0-68b6b72699c7''
      # ''11111111-2222-3333-4444-555555555555'' # []"
    and s2: "Split ?l2 kSgdiskToken = ''PART'' # ''2'' # ''193d1ea4-B3CA-11E4-B075-10604B889DCF''
      # ''766F6C64-2D64-6973-6B2D-757569642D31'' # []"
    and s3: "Split ?l3 kSgdiskToken = ''PART'' # ''3'' # ''19A710A2-B3CA-11E4-B026-10604B889DCF''
      # ''11111111-2222-3333-4444-555555555555'' # []"
    and s0: "Split ''DISK gpt'' kSgdiskToken = [''DISK'', ''gpt'']"
    by (simp_all add: kSgdiskToken_def)
  have p: "ParseInt ''1'' 1 15 = Some 1" "ParseInt ''2'' 1 15 = Some 2" "ParseInt ''3'' 1 15 = Some 3"
    by (simp_all add: parse_defs)
  have t0: "table_of_line ''DISK gpt'' = Some kGpt" "table_of_line ?l1 = None"
    "table_of_line ?l2 = None" "table_of_line ?l3 = None"
    by (simp_all add: table_of_line_def kSgdiskToken_def)
  have g1: "table_after [''DISK gpt''] kUnknown = kGpt"
    and g2: "table_after [''DISK gpt'', ?l1] kUnknown = kGpt"
    and g3: "table_after [''DISK gpt'', ?l1, ?l2] kUnknown = kGpt"
    by (simp_all add: t0)
  have c: "same_ignoring_case ''ebd0a0a2-b9e5-4433-87c0-68b6b72699c7'' kGptBasicData"
    "\<not> same_ignoring_case ''193d1ea4-B3CA-11E4-B075-10604B889DCF'' kGptBasicData"
    "\<not> same_ignoring_case ''193d1ea4-B3CA-11E4-B075-10604B889DCF'' kGptLinuxFilesystem"
    "same_ignoring_case ''193d1ea4-B3CA-11E4-B075-10604B889DCF'' kGptAndroidExpand"
    "\<not> same_ignoring_case ''19A710A2-B3CA-11E4-B026-10604B889DCF'' kGptBasicData"
    "\<not> same_ignoring_case ''19A710A2-B3CA-11E4-B026-10604B889DCF'' kGptLinuxFilesystem"
    "\<not> same_ignoring_case ''19A710A2-B3CA-11E4-B026-10604B889DCF'' kGptAndroidExpand"
    by (simp_all add: same_ignoring_case_def tolower_c_def const_defs)
  have r: "record_decision 15 t ''DISK gpt'' = None"
    "record_decision 15 kGpt ?l1 = Some (1, DecPublic)"
    "record_decision 15 kGpt ?l2 = Some (2, DecPrivate ''766F6C64-2D64-6973-6B2D-757569642D31'')"
    "record_decision 15 kGpt ?l3 = Some (3, DecNone)" for t
    by (simp_all add: record_decision_def kSgdiskToken_def p gpt_decision_def c)
  have mp: "makePrivate ?e ?store sample_disk 2 ''766F6C64-2D64-6973-6B2D-757569642D31''
      = Some ((PrivateVolume (makedev 8 2) ''0123456789abcdef'')
                \<lparr>vDiskId := ''disk:8,0'', vPartGuid := ''766F6C64-2D64-6973-6B2D-757569642D31''\<rparr>)"
    by (simp add: makePrivate_def sample_env_simps NormalizeHex_model_def xdigit_val_def
        tolower_c_def BuildKeyPath_model_def sample_child OK_def)
      (simp add: sample_disk_eq)
  have id: "mId sample_disk = ''disk:8,0''" by (simp add: sample_disk_eq)
  have sv: "scan_volumes ?e ?store sample_disk 15 kUnknown [''DISK gpt''] = []"
    "scan_volumes ?e ?store sample_disk 15 kGpt [?l2, ?l3]
      = [(PrivateVolume (makedev 8 2) ''0123456789abcdef'')
                \<lparr>vDiskId := ''disk:8,0'', vPartGuid := ''766F6C64-2D64-6973-6B2D-757569642D31''\<rparr>]"
    "scan_volumes ?e ?store sample_disk 15 kUnknown [''DISK gpt'', ?l1]
      = [(PublicVolume (makedev 8 1) [] [])\<lparr>vDiskId := ''disk:8,0''\<rparr>]"
    "scan_volumes ?e ?store sample_disk 15 kGpt [?l3] = []"
    "scan_volumes ?e ?store sample_disk 15 kUnknown [''DISK gpt'', ?l1, ?l2]
      = [(PublicVolume (makedev 8 1) [] [])\<lparr>vDiskId := ''disk:8,0''\<rparr>,
         (PrivateVolume (makedev 8 2) ''0123456789abcdef'')
                \<lparr>vDiskId := ''disk:8,0'', vPartGuid := ''766F6C64-2D64-6973-6B2D-757569642D31''\<rparr>]"
    "scan_volumes ?e ?store sample_disk 15 kGpt [] = []"
    by (simp_all add: scan_volumes_Cons scan_volumes_Nil r t0 mp makePublic_def sample_child id)
  from readPartitions_gpt_record [OF mm ge sk fe1 g1 s1 p(1)]
    readPartitions_gpt_record [OF mm ge sk fe2 g2 s2 p(2)]
    readPartitions_gpt_record [OF mm ge sk fe3 g3 s3 p(3)]
  show ?thesis
    by (simp add: c sv mp sample_child id sample_disk_unformatted)
qed

text \<open>An MBR disk with types 83, c, 82 and 0B: volumes on (8,1), (8,2) and (8,4).\<close>

theorem readPartitions_mbr_record_witness:
  "\<exists>w'. readPartitions
      (sample_env (sample_tool [''DISK mbr'', ''PART 1 83'', ''PART 2 c'', ''PART 3 82'', ''PART 4 0B'']) True)
      (sample_disk, sample_world)
    = Inr (OK,
           sample_disk\<lparr>mVolumes :=
             [(PublicVolume (makedev 8 1) [] [])\<lparr>vDiskId := ''disk:8,0''\<rparr>,
              (PublicVolume (makedev 8 2) [] [])\<lparr>vDiskId := ''disk:8,0''\<rparr>,
              (PublicVolume (makedev 8 4) [] [])\<lparr>vDiskId := ''disk:8,0''\<rparr>]\<rparr>,
           w')"
proof -
  let ?out = "[''DISK mbr'', ''PART 1 83'', ''PART 2 c'', ''PART 3 82'', ''PART 4 0B'']"
  let ?e = "sample_env (sample_tool ?out) True"
  have mm: "getMaxMinors ?e (sample_disk, sample_world) = Inr 15"
    by (subst sample_disk_flags, rule sample_getMaxMinors)
  have ge: "(0::int) \<le> 15" by simp
  have sk: "\<not> mSkipChange sample_disk" by (simp add: sample_disk_eq)
  have fe2: "ForkExecvp ?e (dumpCmd sample_disk) = (OK, [''DISK mbr'', ''PART 1 83''] @ ''PART 2 c'' # [''PART 3 82'', ''PART 4 0B''])"
    and fe3: "ForkExecvp ?e (dumpCmd sample_disk) = (OK, [''DISK mbr'', ''PART 1 83'', ''PART 2 c''] @ ''PART 3 82'' # [''PART 4 0B''])"
    by (simp_all add: sample_env_simps dumpCmd_def sample_disk_eq sample_tool_def)
  have s: "Split ''DISK mbr'' kSgdiskToken = [''DISK'', ''mbr'']"
    "Split ''PART 1 83'' kSgdiskToken = [''PART'', ''1'', ''83'']"
    "Split ''PART 4 0B'' kSgdiskToken = [''PART'', ''4'', ''0B'']"
    and s2: "Split ''PART 2 c'' kSgdiskToken = ''PART'' # ''2'' # ''c'' # []"
    and s3: "Split ''PART 3 82'' kSgdiskToken = ''PART'' # ''3'' # ''82'' # []"
    by (simp_all add: kSgdiskToken_def)
  have p: "ParseInt ''1'' 1 15 = Some 1" "ParseInt ''2'' 1 15 = Some 2" "ParseInt ''3'' 1 15 = Some 3"
    "ParseInt ''4'' 1 15 = Some 4"
    by (simp_all add: parse_defs)
  have t0: "table_of_line ''DISK mbr'' = Some kMbr" "table_of_line ''PART 1 83'' = None"
    "table_of_line ''PART 2 c'' = None" "table_of_line ''PART 3 82'' = None"
    "table_of_line ''PART 4 0B'' = None"
    by (simp_all add: table_of_line_def kSgdiskToken_def)
  have g2: "table_after [''DISK mbr'', ''PART 1 83''] kUnknown = kMbr"
    and g3: "table_after [''DISK mbr'', ''PART 1 83'', ''PART 2 c''] kUnknown = kMbr"
    by (simp_all add: t0)
  have h: "hex_value (c_str ''83'') = Some 131" "hex_value (c_str ''c'') = Some 12"
    "hex_value (c_str ''82'') = Some 130" "hex_value (c_str ''0B'') = Some 11"
    by (simp_all add: hex_value_def c_str_def xdigit_val_def)
  have r: "record_decision 15 t ''DISK mbr'' = None"
    "record_decision 15 kMbr ''PART 1 83'' = Some (1, DecPublic)"
    "record_decision 15 kMbr ''PART 2 c'' = Some (2, DecPublic)"
    "record_decision 15 kMbr ''PART 3 82'' = Some (3, DecNone)"
    "record_decision 15 kMbr ''PART 4 0B'' = Some (4, DecPublic)" for t
    by (simp_all add: record_decision_def kSgdiskToken_def p mbr_decision_def h mbr_public_types_def)
  have id: "mId sample_disk = ''disk:8,0''" by (simp add: sample_disk_eq)
  have sv: "scan_volumes ?e (files sample_world) sample_disk 15 kUnknown [''DISK mbr'', ''PART 1 83'']
      = [(PublicVolume (makedev 8 1) [] [])\<lparr>vDiskId := ''disk:8,0''\<rparr>]"
    "scan_volumes ?e (files sample_world) sample_disk 15 kMbr [''PART 3 82'', ''PART 4 0B'']
      = [(PublicVolume (makedev 8 4) [] [])\<lparr>vDiskId := ''disk:8,0''\<rparr>]"
    "scan_volumes ?e (files sample_world) sample_disk 15 kUnknown [''DISK mbr'', ''PART 1 83'', ''PART 2 c'']
      = [(PublicVolume (makedev 8 1) [] [])\<lparr>vDiskId := ''disk:8,0''\<rparr>,
         (PublicVolume (makedev 8 2) [] [])\<lparr>vDiskId := ''disk:8,0''\<rparr>]"
    "scan_volumes ?e (files sample_world) sample_disk 15 kMbr [''PART 4 0B'']
      = [(PublicVolume (makedev 8 4) [] [])\<lparr>vDiskId := ''disk:8,0''\<rparr>]"
    by (simp_all add: scan_volumes_Cons scan_volumes_Nil r t0 makePublic_def sample_child id)
  from readPartitions_mbr_record [OF mm ge sk fe2 g2 s2 p(2)]
    readPartitions_mbr_record [OF mm ge sk fe3 g3 s3 p(3)]
  show ?thesis
    by (simp add: h sv sample_child id mbr_public_types_def sample_disk_unformatted)
qed

text \<open>
  Claim C7.  It says that \<^verbatim>\<open>partitionPublic\<close> leaves \<^verbatim>\<open>mSkipChange\<close> clear when the
  look at the current table finds no recognised \<^verbatim>\<open>DISK\<close> line.  On the output
  \<^verbatim>\<open>DISK\<close>, which names no kind, the code does not get that far: \<^verbatim>\<open>strtok\<close> returns
  \<^verbatim>\<open>nullptr\<close> for the kind and \<^verbatim>\<open>strcmp\<close> is called on it.  \<^verbatim>\<open>readPartitions\<close>
  checks for the missing token and returns on the same output.
\<close>

theorem partitionPublic_bare_DISK_line_aborts:
  "\<not> mSkipChange sample_disk
   \<and> ForkExecvp (sample_env (sample_tool [''DISK'']) True) (dumpCmd sample_disk) = (OK, [''DISK''])
   \<and> prescan_reports [''DISK''] = kUnknown
   \<and> partitionPublic (sample_env (sample_tool [''DISK'']) True) (sample_disk, sample_world)
       = Inl NullPointer
   \<and> readPartitions (sample_env (sample_tool [''DISK'']) True) (sample_disk, sample_world)
       \<noteq> Inl NullPointer"
proof -
  let ?e = "sample_env (sample_tool [''DISK'']) True"
  have sk: "\<not> mSkipChange sample_disk" by (simp add: sample_disk_eq)
  have fe: "ForkExecvp ?e (dumpCmd sample_disk) = (OK, [''DISK''])"
    by (simp add: sample_env_simps dumpCmd_def sample_disk_eq sample_tool_def)
  have tk: "strtok_tokens ''DISK'' kSgdiskToken = [''DISK'']"
    by (simp add: strtok_tokens_def c_str_def kSgdiskToken_def)
  have pr: "prescan_reports [''DISK''] = kUnknown"
    by (simp add: prescan_reports_def List.map_filter_simps prescan_kind_def tk)
  have dc: "dumpCmd (sample_disk\<lparr>mVolumes := [], mJustPartitioned := True\<rparr>) = dumpCmd sample_disk"
    by (simp add: dumpCmd_def)
  have pp: "partitionPublic ?e (sample_disk, sample_world) = Inl NullPointer"
    by (simp add: partitionPublic_def destroyAllVolumes_def Let_def dc fe tk)
  have mm: "getMaxMinors ?e (sample_disk, sample_world) = Inr 15"
    by (subst sample_disk_flags, rule sample_getMaxMinors)
  from readPartitions_frame [OF mm] have "readPartitions ?e (sample_disk, sample_world) \<noteq> Inl NullPointer"
    by auto
  with sk fe pr pp show ?thesis by simp
qed

end
